theory Spec2Isabelle
  imports Main
begin

section \<open>Strings as the source's string operations see them\<close>

text \<open>
  JavaScript strings are sequences of UTF-16 code units; the model uses \<open>string\<close>
  (a list of 8-bit characters), one list element per code unit. The only character
  of the source's literals outside ASCII is the em dash (U+2014): it is one code
  unit in the source and one character here (\<open>em_dash\<close>).
\<close>

definition em_dash :: char where
  "em_dash = CHR 0x97"

text \<open>The class \<open>\s\<close> of regular expressions, which is also what \<open>trim()\<close> strips.\<close>

definition isSpace :: "char \<Rightarrow> bool" where
  "isSpace c = (c \<in> set [CHR '' '', CHR 0x09, CHR 0x0A, CHR 0x0B, CHR 0x0C, CHR 0x0D, CHR 0xA0])"

definition isUpper :: "char \<Rightarrow> bool" where
  "isUpper c = (c \<in> set ''ABCDEFGHIJKLMNOPQRSTUVWXYZ'')"

definition isLower :: "char \<Rightarrow> bool" where
  "isLower c = (c \<in> set ''abcdefghijklmnopqrstuvwxyz'')"

definition isDigit :: "char \<Rightarrow> bool" where
  "isDigit c = (c \<in> set ''0123456789'')"

text \<open>The class \<open>\w\<close>.\<close>

definition isWordChar :: "char \<Rightarrow> bool" where
  "isWordChar c = (isUpper c \<or> isLower c \<or> isDigit c \<or> c = CHR ''_'')"

definition toLowerChar :: "char \<Rightarrow> char" where
  "toLowerChar c =
     (case map_of (zip ''ABCDEFGHIJKLMNOPQRSTUVWXYZ'' ''abcdefghijklmnopqrstuvwxyz'') c of
        Some l \<Rightarrow> l
      | None \<Rightarrow> c)"

definition toLowerCase :: "string \<Rightarrow> string" where
  "toLowerCase s = map toLowerChar s"

definition trim :: "string \<Rightarrow> string" where
  "trim s = rev (dropWhile isSpace (rev (dropWhile isSpace s)))"

definition startsWith :: "string \<Rightarrow> string \<Rightarrow> bool" where
  "startsWith s p = (take (length p) s = p)"

text \<open>\<open>s.includes(p)\<close>: \<open>p\<close> occurs in \<open>s\<close> as a contiguous substring.\<close>

fun str_includes :: "string \<Rightarrow> string \<Rightarrow> bool" where
  "str_includes [] p = (p = [])"
| "str_includes (c # s) p = (startsWith (c # s) p \<or> str_includes s p)"

text \<open>\<open>s.lastIndexOf(c)\<close>: the last index of \<open>c\<close>, or \<open>-1\<close>.\<close>

fun lastIndexOf :: "string \<Rightarrow> char \<Rightarrow> int" where
  "lastIndexOf [] c = - 1"
| "lastIndexOf (x # xs) c =
     (let r = lastIndexOf xs c
      in if 0 \<le> r then r + 1 else if x = c then 0 else - 1)"

text \<open>
  \<open>truncateText\<close> (lib/utils). The source compares \<open>lastSpace > maxLength * 0.8\<close> in
  double precision. The double \<open>0.8\<close> lies above the real 0.8 by less than one part
  in \<open>2^53\<close>, so the rounded product is the integer \<open>4 * maxLength / 5\<close> or a double
  strictly between it and the next integer; against the integer \<open>lastSpace\<close> the test
  is therefore \<open>5 * lastSpace > 4 * maxLength\<close>.
\<close>

definition truncateText :: "string \<Rightarrow> nat \<Rightarrow> string" where
  "truncateText txt maxLength =
     (if length txt \<le> maxLength then txt
      else
        let truncated = take maxLength txt;
            lastSpace = lastIndexOf truncated (CHR '' '')
        in if 5 * lastSpace > 4 * int maxLength
           then take (nat lastSpace) truncated
           else truncated)"

section \<open>The data model\<close>

datatype Stage = DISCOVER | FETCH | SYNTHESIZE | PUBLISH | UnknownStage

datatype Strategy = DeepResearch | MapReduce

datatype JobStatus = Queued | Running | Partial | Complete | Failed | Aborted

datatype AccessStatus = AsUnknown | AsOk | AsPaywalled | AsBlocked

record Discovery =
  candidateUrls :: "string list"
  selectedCount :: nat

record FetchProgress =
  totalSources :: nat
  fetchedCount :: nat
  okCount :: nat
  nextIndex :: nat

record Synthesis =
  strategy :: Strategy
  retryCount :: nat
  partialMarkdown :: "string option"

record PublishInfo =
  reportId :: "string option"
  emailSent :: bool

text \<open>
  \<open>DeepDiveState\<close> (types). The field \<open>stage\<close> is a string at run time: the four
  declared values, and \<open>UnknownStage\<close> for any other or missing value, which the
  orchestrator's \<open>default:\<close> branch handles. The field \<open>error\<close> is not declared by
  the interface; \<open>discoverCandidates\<close> writes it when the topic is missing.
\<close>

record DeepDiveState =
  stage :: Stage
  discovery :: "Discovery option"
  fetch :: "FetchProgress option"
  synthesis :: "Synthesis option"
  publish :: "PublishInfo option"
  error :: "string option"

definition initialState :: DeepDiveState where
  "initialState =
     \<lparr>stage = DISCOVER, discovery = None, fetch = None, synthesis = None,
      publish = None, error = None\<rparr>"

text \<open>
  \<open>fromJson\<close> (types): \<open>(value as DeepDiveState) ?? { stage: 'DISCOVER' }\<close>. The
  stored column is \<open>None\<close> when it is null or absent and \<open>Some s\<close> otherwise, \<open>s\<close>
  being the value read through the interface's fields. Section \<open>The stored state
  document\<close> gives the same expression on the raw value of the column.
\<close>

definition fromJson :: "DeepDiveState option \<Rightarrow> DeepDiveState" where
  "fromJson v = (case v of None \<Rightarrow> initialState | Some s \<Rightarrow> s)"

definition toJson :: "DeepDiveState \<Rightarrow> DeepDiveState option" where
  "toJson s = Some s"

record DeepDiveJob =
  job_id :: string
  userId :: string
  runWeek :: int
  status :: JobStatus
  attempt :: nat
  topicInterestId :: string
  state :: "DeepDiveState option"

record DeepDiveSource =
  source_id :: string
  jobId :: string
  url :: string
  accessStatus :: AccessStatus
  title :: "string option"
  extractedText :: "string option"
  sourceName :: "string option"

record DeepDiveReport =
  report_id :: string
  report_jobId :: string
  subject :: string
  markdown :: string
  html :: string

section \<open>The stored state document\<close>

text \<open>
  The column \<open>state\<close> is a JSON column and \<open>fromJson\<close> takes a value of type
  \<open>unknown\<close>. \<open>JsonValue\<close> is such a value at run time: whatever \<open>JSON.parse\<close> can
  return, and \<open>undefined\<close> for a value that is absent. An object is the list of its
  properties, each name once. The numbers of a state document are counters and
  indices, hence integers.
\<close>

datatype JsonValue =
    JUndefined
  | JNull
  | JBoolean bool
  | JNumber int
  | JString string
  | JArray "JsonValue list"
  | JObject "(string \<times> JsonValue) list"






text \<open>
  \<open>toJson\<close> (types) on the raw value: \<open>JSON.parse(JSON.stringify(value))\<close>, the document
  that is written to the column. \<open>JSON.stringify\<close> leaves out a property that is
  \<open>undefined\<close> and keeps one that is \<open>null\<close> (\<open>reportId\<close>). \<open>UnknownStage\<close>, which stands
  for a stage that is none of the four strings, is written as the missing property.
\<close>

fun property :: "string \<Rightarrow> JsonValue option \<Rightarrow> (string \<times> JsonValue) list" where
  "property name None = []"
| "property name (Some x) = [(name, x)]"

definition stageJson :: "Stage \<Rightarrow> JsonValue option" where
  "stageJson a =
     (case a of
        DISCOVER \<Rightarrow> Some (JString ''DISCOVER'')
      | FETCH \<Rightarrow> Some (JString ''FETCH'')
      | SYNTHESIZE \<Rightarrow> Some (JString ''SYNTHESIZE'')
      | PUBLISH \<Rightarrow> Some (JString ''PUBLISH'')
      | UnknownStage \<Rightarrow> None)"

definition discoveryJson :: "Discovery \<Rightarrow> JsonValue" where
  "discoveryJson d =
     JObject [(''candidateUrls'', JArray (map JString (candidateUrls d))),
              (''selectedCount'', JNumber (int (selectedCount d)))]"

definition fetchJson :: "FetchProgress \<Rightarrow> JsonValue" where
  "fetchJson f =
     JObject [(''totalSources'', JNumber (int (totalSources f))),
              (''fetchedCount'', JNumber (int (fetchedCount f))),
              (''okCount'', JNumber (int (okCount f))),
              (''nextIndex'', JNumber (int (nextIndex f)))]"

definition synthesisJson :: "Synthesis \<Rightarrow> JsonValue" where
  "synthesisJson sy =
     JObject ([(''strategy'', JString (case strategy sy of
                                         DeepResearch \<Rightarrow> ''deep-research''
                                       | MapReduce \<Rightarrow> ''map-reduce'')),
               (''retryCount'', JNumber (int (retryCount sy)))]
              @ property ''partialMarkdown'' (map_option JString (partialMarkdown sy)))"

definition publishJson :: "PublishInfo \<Rightarrow> JsonValue" where
  "publishJson p =
     JObject [(''reportId'', (case reportId p of None \<Rightarrow> JNull | Some r \<Rightarrow> JString r)),
              (''emailSent'', JBoolean (emailSent p))]"

definition toJsonValue :: "DeepDiveState \<Rightarrow> JsonValue" where
  "toJsonValue s =
     JObject (property ''stage'' (stageJson (stage s))
              @ property ''discovery'' (map_option discoveryJson (discovery s))
              @ property ''fetch'' (map_option fetchJson (fetch s))
              @ property ''synthesis'' (map_option synthesisJson (synthesis s))
              @ property ''publish'' (map_option publishJson (publish s))
              @ property ''error'' (map_option JString (error s)))"


section \<open>FETCH: one source\<close>

definition MAX_EXTRACTED_TEXT :: nat where
  "MAX_EXTRACTED_TEXT = 20000"

definition MIN_READABLE_CHARS :: nat where
  "MIN_READABLE_CHARS = 1200"

definition PAYWALL_MARKERS :: "string list" where
  "PAYWALL_MARKERS =
     [''subscribe to continue'', ''sign in to read'', ''sign in to continue'',
      ''metered paywall'', ''create a free account'', ''start your free trial'',
      ''subscribe for full access'', ''premium content'', ''members only'',
      ''you have reached your limit'']"

definition PAYWALL_URL_PATTERNS :: "string list" where
  "PAYWALL_URL_PATTERNS =
     [''/subscribe'', ''/login'', ''/paywall'', ''/register'', ''/signin'', ''/sign-in'']"

text \<open>
  What the HTML parser (cheerio) reports for a document: the two meta tags, the
  trimmed text of \<open>title\<close>, the text of the first content selector that matches
  after the non-content elements are removed (whitespace collapsed and trimmed;
  \<open>None\<close> when no selector matches), and the text of \<open>body\<close> treated the same way.
\<close>

record Page =
  ogTitle :: "string option"
  titleText :: string
  ogSiteName :: "string option"
  contentText :: "string option"
  bodyText :: string

record Response =
  statusCode :: nat
  finalUrl :: string
  htmlBody :: string
  page :: Page

text \<open>\<open>FetchFailed\<close>: \<open>fetch\<close> or reading the body threw (network error, the 10 s abort).\<close>

datatype FetchReply = FetchFailed | Reply Response

record FetchResult =
  fr_status :: AccessStatus
  fr_title :: "string option"
  fr_text :: "string option"
  fr_sourceName :: "string option"

text \<open>\<open>a || b\<close> on strings that may be undefined: the empty string is falsy.\<close>

definition truthy :: "string option \<Rightarrow> bool" where
  "truthy v = (case v of None \<Rightarrow> False | Some s \<Rightarrow> s \<noteq> [])"

definition orElse :: "string option \<Rightarrow> string option \<Rightarrow> string option" where
  "orElse a b = (if truthy a then a else b)"

definition responseOk :: "Response \<Rightarrow> bool" where
  "responseOk r = (200 \<le> statusCode r \<and> statusCode r \<le> 299)"

definition fetchSingleSource :: "(string \<Rightarrow> FetchReply) \<Rightarrow> string \<Rightarrow> FetchResult" where
  "fetchSingleSource doFetch u =
     (case doFetch u of
        FetchFailed \<Rightarrow>
          \<lparr>fr_status = AsBlocked, fr_title = None, fr_text = None, fr_sourceName = None\<rparr>
      | Reply response \<Rightarrow>
          if statusCode response = 401 \<or> statusCode response = 403 then
            \<lparr>fr_status = AsPaywalled, fr_title = None, fr_text = None, fr_sourceName = None\<rparr>
          else if \<not> responseOk response then
            \<lparr>fr_status = AsBlocked, fr_title = None, fr_text = None, fr_sourceName = None\<rparr>
          else if list_ex (\<lambda>p. str_includes (finalUrl response) p) PAYWALL_URL_PATTERNS then
            \<lparr>fr_status = AsPaywalled, fr_title = None, fr_text = None, fr_sourceName = None\<rparr>
          else if list_ex (\<lambda>marker. str_includes (toLowerCase (htmlBody response)) marker)
                    PAYWALL_MARKERS then
            \<lparr>fr_status = AsPaywalled, fr_title = None, fr_text = None, fr_sourceName = None\<rparr>
          else
            let pg = page response;
                ttl = orElse (ogTitle pg) (orElse (Some (titleText pg)) None);
                sname = orElse (ogSiteName pg) None;
                text0 = (case contentText pg of None \<Rightarrow> [] | Some t \<Rightarrow> t);
                text1 = (if length text0 < MIN_READABLE_CHARS then bodyText pg else text0)
            in if length text1 < MIN_READABLE_CHARS then
                 \<lparr>fr_status = AsBlocked, fr_title = ttl, fr_text = None, fr_sourceName = None\<rparr>
               else
                 \<lparr>fr_status = AsOk, fr_title = ttl, fr_text = Some text1, fr_sourceName = sname\<rparr>)"

text \<open>
  The \<open>extractedText\<close> that \<open>fetchAndExtractBatch\<close> stores for a result:
  \<open>result.text ? truncateText(result.text, MAX_EXTRACTED_TEXT) : null\<close>.
\<close>

definition storedText :: "FetchResult \<Rightarrow> string option" where
  "storedText r =
     (if truthy (fr_text r)
      then Some (truncateText (case fr_text r of Some t \<Rightarrow> t | None \<Rightarrow> []) MAX_EXTRACTED_TEXT)
      else None)"

section \<open>The database and the environment of one invocation\<close>

record Interest =
  interest_id :: string
  label :: string

record UserProfile =
  emailEnabled :: bool
  paused :: bool

record DeepDiveConfig =
  enabled :: bool
  dayOfWeek :: string
  maxSources :: nat

record User =
  user_id :: string
  email :: string
  timezone :: string
  profile :: "UserProfile option"
  deepDiveConfig :: "DeepDiveConfig option"
  deepDiveTopics :: "string list"

record EmailEvent =
  ev_userId :: string
  ev_reportId :: string

text \<open>
  The tables the deep-dive code reads and writes. \<open>deepDiveJobs\<close> is kept in creation
  order (\<open>create\<close> appends), so \<open>orderBy createdAt desc\<close> is the reversed list.
  \<open>sentEmails\<close> records the calls of \<open>sendEmail\<close> that went through (recipient, subject).
\<close>

record Db =
  deepDiveJobs :: "DeepDiveJob list"
  deepDiveSources :: "DeepDiveSource list"
  deepDiveReports :: "DeepDiveReport list"
  interests :: "Interest list"
  users :: "User list"
  emailEvents :: "EmailEvent list"
  sentEmails :: "(string \<times> string) list"

text \<open>
  Everything an invocation reads from outside the tables above: configuration, clock
  readings, the article corpus, the URL parser, the network, the generation service,
  the markdown renderer, and which of the fallible external calls reject.
\<close>

record Env =
  genId :: "nat \<Rightarrow> string"
  \<comment> \<open>orchestrator: \<open>Date.now()\<close> at entry and when the remaining time is computed\<close>
  stepStart :: int
  dispatchAt :: int
  \<comment> \<open>discovery\<close>
  DEEP_DIVE_MAX_SOURCES :: nat
  articleMatches :: "string \<Rightarrow> string \<Rightarrow> string list"
  articleSearch :: "string \<Rightarrow> string list"
  corpusThrows :: bool
  canonicalizeUrl :: "string \<Rightarrow> string"
  extractDomain :: "string \<Rightarrow> string"
  sourceTiers :: "(string \<times> nat) list"
  blockPatterns :: "string list"
  \<comment> \<open>fetch\<close>
  DEEP_DIVE_MAX_FETCH_PER_INVOCATION :: nat
  fetchStart :: int
  fetchNow :: "nat \<Rightarrow> int"
  httpGet :: "string \<Rightarrow> FetchReply"
  storeThrows :: "string \<Rightarrow> bool"
  \<comment> \<open>synthesis\<close>
  DEEP_DIVE_MAX_SYNTHESIS_SOURCES :: nat
  synthStart :: int
  synthNow :: "nat \<Rightarrow> int"
  chatDirect :: "DeepDiveSource list \<Rightarrow> string \<Rightarrow> bool \<Rightarrow> string option"
  chatMapReduce :: "DeepDiveSource list \<Rightarrow> string \<Rightarrow> string option"
  \<comment> \<open>publish\<close>
  monthDay :: string
  renderHtml :: "string \<Rightarrow> string option"
  createTokenSetThrows :: bool
  sendEmailThrows :: bool
  \<comment> \<open>scheduler: the clock at each loop iteration, and the local calendar date
      (days since 1970-01-01) of an instant in a time zone\<close>
  schedNow :: "nat \<Rightarrow> int"
  localDate :: "int \<Rightarrow> string \<Rightarrow> int"

text \<open>A stage returns, or throws; either way the tables are as it left them.\<close>

datatype Outcome = Returned Db | Threw Db

definition findJob :: "Db \<Rightarrow> string \<Rightarrow> DeepDiveJob option" where
  "findJob db jid = find (\<lambda>j. job_id j = jid) (deepDiveJobs db)"

definition findInterest :: "Db \<Rightarrow> string \<Rightarrow> Interest option" where
  "findInterest db iid = find (\<lambda>i. interest_id i = iid) (interests db)"

definition findUser :: "Db \<Rightarrow> string \<Rightarrow> User option" where
  "findUser db uid = find (\<lambda>u. user_id u = uid) (users db)"

definition findReport :: "Db \<Rightarrow> string \<Rightarrow> DeepDiveReport option" where
  "findReport db jid = find (\<lambda>r. report_jobId r = jid) (deepDiveReports db)"

text \<open>
  \<open>prisma.deepDiveJob.update({ where: { id }, data })\<close>. Every caller has found the
  row by the same id before, and nothing deletes jobs.
\<close>

definition updateJob :: "string \<Rightarrow> (DeepDiveJob \<Rightarrow> DeepDiveJob) \<Rightarrow> Db \<Rightarrow> Db" where
  "updateJob jid f db =
     db\<lparr>deepDiveJobs := map (\<lambda>j. if job_id j = jid then f j else j) (deepDiveJobs db)\<rparr>"

definition updateSource :: "string \<Rightarrow> (DeepDiveSource \<Rightarrow> DeepDiveSource) \<Rightarrow> Db \<Rightarrow> Db" where
  "updateSource sid f db =
     db\<lparr>deepDiveSources := map (\<lambda>s. if source_id s = sid then f s else s) (deepDiveSources db)\<rparr>"

text \<open>\<open>hasTimeRemaining\<close> (lib/utils), with the reading of \<open>Date.now()\<close> as an argument.\<close>

definition hasTimeRemaining :: "int \<Rightarrow> int \<Rightarrow> int \<Rightarrow> int \<Rightarrow> bool" where
  "hasTimeRemaining now startTime maxDuration buffer = (now - startTime < maxDuration - buffer)"

section \<open>DISCOVER\<close>

fun dedupeLoop :: "(string \<Rightarrow> string) \<Rightarrow> string list \<Rightarrow> string list \<Rightarrow> string list" where
  "dedupeLoop canon [] seen = []"
| "dedupeLoop canon (u # us) seen =
     (let canonical = canon u
      in if canonical \<in> set seen then dedupeLoop canon us seen
         else u # dedupeLoop canon us (canonical # seen))"

text \<open>
  \<open>rankBySourceTier\<close>: the tier map is filled in table order (a later row of the same
  domain overwrites), blocked domains are dropped, and \<open>Array.prototype.sort\<close> is stable.
\<close>

definition rankBySourceTier :: "Env \<Rightarrow> string list \<Rightarrow> string list" where
  "rankBySourceTier env urls =
     (let domainTiers =
            map_of (rev (filter (\<lambda>(d, t). d \<noteq> [])
                           (map (\<lambda>(u, t). (extractDomain env u, t)) (sourceTiers env))));
          tier = (\<lambda>u. case domainTiers (extractDomain env u) of Some t \<Rightarrow> t | None \<Rightarrow> 3)
      in sort_key tier
           (filter (\<lambda>u. \<not> list_ex (\<lambda>p. str_includes (extractDomain env u) p) (blockPatterns env))
              urls))"

text \<open>\<open>createMany({ data, skipDuplicates: true })\<close>; a source is unique by job and URL.\<close>

fun createSources :: "Env \<Rightarrow> string \<Rightarrow> string list \<Rightarrow> DeepDiveSource list \<Rightarrow> DeepDiveSource list" where
  "createSources env jid [] tbl = tbl"
| "createSources env jid (u # us) tbl =
     createSources env jid us
       (if list_ex (\<lambda>s. jobId s = jid \<and> url s = u) tbl then tbl
        else tbl @ [\<lparr>source_id = genId env (length tbl), jobId = jid, url = u,
                      accessStatus = AsUnknown, title = None, extractedText = None,
                      sourceName = None\<rparr>])"

text \<open>
  The candidate list of \<open>discoverCandidates\<close>: the matched articles (or, when there
  are none, the articles found by the label), deduplicated, ranked, cut to the maximum.
\<close>

definition selectCandidates :: "Env \<Rightarrow> nat \<Rightarrow> DeepDiveJob \<Rightarrow> Interest \<Rightarrow> string list" where
  "selectCandidates env maxSrc job interest =
     (let matches = take (maxSrc * 2) (articleMatches env (userId job) (interest_id interest));
          candidates = (if matches \<noteq> [] then matches
                        else take (maxSrc * 2) (articleSearch env (label interest)));
          deduped = dedupeLoop (canonicalizeUrl env) candidates [];
          ranked = rankBySourceTier env deduped
      in take maxSrc ranked)"

text \<open>
  \<open>discoverCandidates\<close> (discover). \<open>corpusThrows\<close>: one of the queries on the article
  corpus rejects. The job's user is a required relation.
\<close>

definition discoverCandidates :: "Env \<Rightarrow> Db \<Rightarrow> string \<Rightarrow> Outcome" where
  "discoverCandidates env db jid =
     (case findJob db jid of
        None \<Rightarrow> Threw db
      | Some job \<Rightarrow>
         (case findUser db (userId job) of
            None \<Rightarrow> Threw db
          | Some user \<Rightarrow>
             let maxSrc = (case deepDiveConfig user of
                             Some c \<Rightarrow> maxSources c
                           | None \<Rightarrow> DEEP_DIVE_MAX_SOURCES env)
             in (case findInterest db (topicInterestId job) of
                  None \<Rightarrow>
                    Returned (updateJob jid
                      (\<lambda>j. j\<lparr>status := Failed,
                              state := Some (initialState\<lparr>error := Some ''Interest not found''\<rparr>)\<rparr>) db)
                | Some interest \<Rightarrow>
                    if corpusThrows env then Threw db
                    else
                      let selected = selectCandidates env maxSrc job interest
                      in if selected = [] then
                           Returned (updateJob jid
                             (\<lambda>j. j\<lparr>status := Partial,
                                     state := toJson
                                       \<lparr>stage = SYNTHESIZE,
                                        discovery = Some \<lparr>candidateUrls = [], selectedCount = 0\<rparr>,
                                        fetch = None, synthesis = None, publish = None,
                                        error = None\<rparr>\<rparr>) db)
                         else
                           let db1 = db\<lparr>deepDiveSources :=
                                          createSources env jid selected (deepDiveSources db)\<rparr>;
                               newState =
                                 \<lparr>stage = FETCH,
                                  discovery = Some \<lparr>candidateUrls = selected,
                                                    selectedCount = length selected\<rparr>,
                                  fetch = Some \<lparr>totalSources = length selected, fetchedCount = 0,
                                                okCount = 0, nextIndex = 0\<rparr>,
                                  synthesis = None, publish = None, error = None\<rparr>
                           in Returned (updateJob jid (\<lambda>j. j\<lparr>state := toJson newState\<rparr>) db1))))"

section \<open>FETCH: the batch\<close>

text \<open>
  A field given as \<open>undefined\<close> in the data of a Prisma update is left as it is.
\<close>

definition keepIfUndefined :: "'a option \<Rightarrow> 'a option \<Rightarrow> 'a option" where
  "keepIfUndefined new old = (case new of None \<Rightarrow> old | Some v \<Rightarrow> Some v)"

text \<open>
  The loop over the batch, threading the tables and the two counters. The source update
  sits in a \<open>try\<close>: when it rejects (\<open>storeThrows\<close>), the \<open>catch\<close> marks the source blocked.
\<close>

fun fetchLoop :: "Env \<Rightarrow> int \<Rightarrow> nat \<Rightarrow> DeepDiveSource list \<Rightarrow> Db \<times> nat \<times> nat \<Rightarrow> Db \<times> nat \<times> nat" where
  "fetchLoop env maxDuration i [] acc = acc"
| "fetchLoop env maxDuration i (source # rest) (db, fetched, oks) =
     (if \<not> hasTimeRemaining (fetchNow env i) (fetchStart env) maxDuration 8000
      then (db, fetched, oks)
      else
        let result = fetchSingleSource (httpGet env) (url source)
        in if storeThrows env (url source) then
             fetchLoop env maxDuration (i + 1) rest
               (updateSource (source_id source) (\<lambda>s. s\<lparr>accessStatus := AsBlocked\<rparr>) db,
                fetched + 1, oks)
           else
             fetchLoop env maxDuration (i + 1) rest
               (updateSource (source_id source)
                  (\<lambda>s. s\<lparr>accessStatus := fr_status result,
                          title := keepIfUndefined (fr_title result) (title s),
                          extractedText := storedText result,
                          sourceName := keepIfUndefined (fr_sourceName result) (sourceName s)\<rparr>) db,
                fetched + 1,
                if fr_status result = AsOk then oks + 1 else oks))"

definition unfetchedSources :: "Db \<Rightarrow> string \<Rightarrow> DeepDiveSource list" where
  "unfetchedSources db jid =
     filter (\<lambda>s. jobId s = jid \<and> accessStatus s = AsUnknown) (deepDiveSources db)"

text \<open>The tables and counters after the batch loop of \<open>fetchAndExtractBatch\<close>.\<close>

definition fetchBatch :: "Env \<Rightarrow> Db \<Rightarrow> string \<Rightarrow> int \<Rightarrow> DeepDiveState \<Rightarrow> Db \<times> nat \<times> nat" where
  "fetchBatch env db jid maxDuration st =
     fetchLoop env maxDuration 0
       (take (DEEP_DIVE_MAX_FETCH_PER_INVOCATION env) (unfetchedSources db jid))
       (db,
        (case fetch st of Some f \<Rightarrow> fetchedCount f | None \<Rightarrow> 0),
        (case fetch st of Some f \<Rightarrow> okCount f | None \<Rightarrow> 0))"

definition fetchAndExtractBatch :: "Env \<Rightarrow> Db \<Rightarrow> string \<Rightarrow> int \<Rightarrow> Outcome" where
  "fetchAndExtractBatch env db jid maxDuration =
     (case findJob db jid of
        None \<Rightarrow> Threw db
      | Some job \<Rightarrow>
          let st = fromJson (state job);
              (db1, fetched, oks) = fetchBatch env db jid maxDuration st;
              remainingUnfetched = length (unfetchedSources db1 jid);
              total = (case fetch st of Some f \<Rightarrow> totalSources f | None \<Rightarrow> 0)
          in if oks \<ge> 4 then
               Returned (updateJob jid
                 (\<lambda>j. j\<lparr>state := toJson
                    \<lparr>stage = SYNTHESIZE, discovery = discovery st,
                     fetch = Some \<lparr>totalSources = total, fetchedCount = fetched,
                                   okCount = oks, nextIndex = 0\<rparr>,
                     synthesis = Some \<lparr>strategy = DeepResearch, retryCount = 0,
                                       partialMarkdown = None\<rparr>,
                     publish = None, error = None\<rparr>\<rparr>) db1)
             else if remainingUnfetched > 0 then
               Returned (updateJob jid
                 (\<lambda>j. j\<lparr>state := toJson
                    \<lparr>stage = FETCH, discovery = discovery st,
                     fetch = Some \<lparr>totalSources = total, fetchedCount = fetched,
                                   okCount = oks, nextIndex = fetched\<rparr>,
                     synthesis = None, publish = None, error = None\<rparr>\<rparr>) db1)
             else if oks \<ge> 2 then
               Returned (updateJob jid
                 (\<lambda>j. j\<lparr>state := toJson
                    \<lparr>stage = SYNTHESIZE, discovery = discovery st,
                     fetch = Some \<lparr>totalSources = total, fetchedCount = fetched,
                                   okCount = oks, nextIndex = 0\<rparr>,
                     synthesis = Some \<lparr>strategy = DeepResearch, retryCount = 0,
                                       partialMarkdown = None\<rparr>,
                     publish = None, error = None\<rparr>\<rparr>)
                 (updateJob jid (\<lambda>j. j\<lparr>status := Partial\<rparr>) db1))
             else
               Returned (updateJob jid
                 (\<lambda>j. j\<lparr>state := toJson
                    \<lparr>stage = SYNTHESIZE, discovery = discovery st,
                     fetch = Some \<lparr>totalSources = total, fetchedCount = fetched,
                                   okCount = oks, nextIndex = 0\<rparr>,
                     synthesis = Some \<lparr>strategy = MapReduce, retryCount = 0,
                                       partialMarkdown = None\<rparr>,
                     publish = None, error = None\<rparr>\<rparr>)
                 (updateJob jid (\<lambda>j. j\<lparr>status := Partial\<rparr>) db1)))"

section \<open>Reports: parsing the markdown\<close>

record SourceCitation =
  cite_title :: string
  cite_url :: string
  cite_source :: string
  cite_date :: "string option"

record DeepDiveReportData =
  headline :: string
  whatHappened :: "string list"
  whatChanged :: "string list"
  whyItMatters :: "string list"
  risks :: "string list"
  actionPrompts :: "string list"
  sources :: "SourceCitation list"

definition newline :: char where
  "newline = CHR 0x0A"

text \<open>\<open>s.split(c)\<close> for a one-character separator; the empty string splits into one empty piece.\<close>

fun splitOnChar :: "char \<Rightarrow> string \<Rightarrow> string list" where
  "splitOnChar c [] = [[]]"
| "splitOnChar c (x # xs) =
     (if x = c then [] # splitOnChar c xs
      else (case splitOnChar c xs of
              [] \<Rightarrow> [[x]]
            | l # ls \<Rightarrow> (x # l) # ls))"

text \<open>\<open>parts.join(sep)\<close>.\<close>

fun join :: "string \<Rightarrow> string list \<Rightarrow> string" where
  "join sep [] = []"
| "join sep [x] = x"
| "join sep (x # y # ys) = x @ sep @ join sep (y # ys)"

text \<open>
  The \<open>sections\<close> object: the first binding of a key is the current one.
  \<open>sectionOf\<close> reads \<open>sections[k] || []\<close>.
\<close>

type_synonym Sections = "(string \<times> string list) list"

definition sectionOf :: "Sections \<Rightarrow> string \<Rightarrow> string list" where
  "sectionOf sections k = (case map_of sections k of None \<Rightarrow> [] | Some l \<Rightarrow> l)"

definition pushTo :: "Sections \<Rightarrow> string \<Rightarrow> string \<Rightarrow> Sections" where
  "pushTo sections k v = (k, sectionOf sections k @ [v]) # sections"

text \<open>\<open>/^\d+\.\s/.test(t)\<close>, and \<open>t.replace(/^\d+\.\s+/, '')\<close> where it matches.\<close>

definition isNumbered :: "string \<Rightarrow> bool" where
  "isNumbered t =
     (takeWhile isDigit t \<noteq> [] \<and>
      (case dropWhile isDigit t of
         c1 # c2 # r \<Rightarrow> c1 = CHR ''.'' \<and> isSpace c2
       | _ \<Rightarrow> False))"

definition stripNumber :: "string \<Rightarrow> string" where
  "stripNumber t = dropWhile isSpace (drop 1 (dropWhile isDigit t))"

text \<open>
  One iteration of the loop over the lines: the state is the sections, the current
  section and the headline. The three \<open>replace\<close> calls strip \<open>#\<close>, \<open>##\<close> or \<open>-\<close> and
  the white space after it; each runs only where \<open>startsWith\<close> has found the marker
  followed by a space.
\<close>

definition parseLine :: "Sections \<times> string \<times> string \<Rightarrow> string \<Rightarrow> Sections \<times> string \<times> string" where
  "parseLine acc line =
     (case acc of (sections, currentSection, hl) \<Rightarrow>
        let trimmed = trim line
        in if startsWith trimmed ''# '' \<and> \<not> startsWith trimmed ''## '' then
             (sections, currentSection, dropWhile isSpace (drop 1 trimmed))
           else if startsWith trimmed ''## '' then
             (let cs = toLowerCase (dropWhile isSpace (drop 2 trimmed))
              in ((cs, []) # sections, cs, hl))
           else
             let sections1 =
                   (if startsWith trimmed ''- '' \<and> currentSection \<noteq> []
                    then pushTo sections currentSection (dropWhile isSpace (drop 1 trimmed))
                    else sections);
                 sections2 =
                   (if isNumbered trimmed \<and> currentSection = ''sources''
                    then pushTo sections1 currentSection (stripNumber trimmed)
                    else sections1)
             in (sections2, currentSection, hl))"

text \<open>
  \<open>/\[([^\]]+)\]\(([^)]+)\)/\<close> anchored at the start of \<open>s\<close>: the two groups and the
  rest of the string. Both groups are maximal runs, so there is nothing to backtrack.
\<close>

definition linkAt :: "string \<Rightarrow> (string \<times> string \<times> string) option" where
  "linkAt s =
     (case s of
        [] \<Rightarrow> None
      | c # r \<Rightarrow>
          if c \<noteq> CHR ''['' then None
          else
            let g1 = takeWhile (\<lambda>x. x \<noteq> CHR '']'') r;
                r1 = dropWhile (\<lambda>x. x \<noteq> CHR '']'') r
            in if g1 = [] then None
               else (case r1 of
                       b # p # r2 \<Rightarrow>
                         if p \<noteq> CHR ''('' then None
                         else
                           let g2 = takeWhile (\<lambda>x. x \<noteq> CHR '')'') r2;
                               r3 = dropWhile (\<lambda>x. x \<noteq> CHR '')'') r2
                           in if g2 = [] then None
                              else (case r3 of
                                      [] \<Rightarrow> None
                                    | q # rest \<Rightarrow> Some (g1, g2, rest))
                     | _ \<Rightarrow> None))"

text \<open>The leftmost match in \<open>s\<close>: the text before it, the two groups, the text after it.\<close>

fun findLink :: "string \<Rightarrow> (string \<times> string \<times> string \<times> string) option" where
  "findLink [] = None"
| "findLink (c # s) =
     (case linkAt (c # s) of
        Some (g1, g2, rest) \<Rightarrow> Some ([], g1, g2, rest)
      | None \<Rightarrow>
          (case findLink s of
             None \<Rightarrow> None
           | Some (before, g1, g2, rest) \<Rightarrow> Some (c # before, g1, g2, rest)))"

definition parseCitation :: "string \<Rightarrow> SourceCitation" where
  "parseCitation s =
     (let linkMatch = findLink s;
          afterLink = trim (case linkMatch of
                              None \<Rightarrow> s
                            | Some (before, g1, g2, rest) \<Rightarrow> before @ rest);
          parts = filter (\<lambda>p. p \<noteq> []) (map trim (splitOnChar em_dash afterLink))
      in \<lparr>cite_title = (case linkMatch of None \<Rightarrow> s | Some (before, g1, g2, rest) \<Rightarrow> g1),
          cite_url = (case linkMatch of None \<Rightarrow> [] | Some (before, g1, g2, rest) \<Rightarrow> g2),
          cite_source = (case parts of [] \<Rightarrow> [] | p0 # ps \<Rightarrow> p0),
          cite_date = (case parts of p0 # p1 # ps \<Rightarrow> Some p1 | _ \<Rightarrow> None)\<rparr>)"

definition parseReportMarkdown :: "string \<Rightarrow> DeepDiveReportData" where
  "parseReportMarkdown md =
     (case foldl parseLine ([], [], []) (splitOnChar newline md) of
        (sections, currentSection, hl) \<Rightarrow>
          \<lparr>headline = hl,
           whatHappened = sectionOf sections ''what happened'',
           whatChanged = sectionOf sections ''what changed'',
           whyItMatters = sectionOf sections ''why it matters'',
           risks = (case map_of sections ''risks / watch-outs'' of
                      Some l \<Rightarrow> l
                    | None \<Rightarrow> sectionOf sections ''risks''),
           actionPrompts = sectionOf sections ''action prompts'',
           sources = map parseCitation (sectionOf sections ''sources'')\<rparr>)"

section \<open>Reports: validation\<close>

definition BANNED_PHRASES :: "string list" where
  "BANNED_PHRASES =
     [''fast-changing landscape'', ''rapidly evolving'', ''paradigm shift'',
      ''paradigm-shifting'', ''leveraging'', ''it is important to note'',
      ''it'' @ [CHR 0x27] @ ''s important to note'', ''this article'', ''the piece'',
      ''the post'', ''in conclusion'', ''in today'' @ [CHR 0x27] @ ''s'', ''game-changer'',
      ''game changer'', ''cutting-edge'', ''cutting edge'', ''at the end of the day'',
      ''moving forward'', ''going forward'', ''synergy'', ''synergies'',
      ''holistic approach'', ''best-in-class'', ''thought leader'', ''disruptive'',
      ''unprecedented times'']"

text \<open>The error messages of the source, as values.\<close>

datatype ValidationError =
    HeadlineMissingOrShort
  | WhatHappenedEmpty
  | WhatHappenedBounds
  | WhatChangedEmpty
  | WhyItMattersEmpty
  | WhyItMattersCount
  | RisksEmpty
  | ActionPromptsEmpty
  | ActionPromptsCount
  | SourcesEmpty
  | BannedPhrase string
  | TooManyExclamations nat
  | UngroundedEntities nat nat "string list"
  | VagueFiller nat nat

record ValidationResult =
  valid :: bool
  errors :: "ValidationError list"

definition serializeReport :: "DeepDiveReportData \<Rightarrow> string" where
  "serializeReport report =
     join '' ''
       ([headline report] @ whatHappened report @ whatChanged report @ whyItMatters report
        @ risks report @ actionPrompts report @ map cite_title (sources report))"

definition commonWords :: "string list" where
  "commonWords =
     [''The'', ''This'', ''That'', ''These'', ''Those'', ''What'', ''Why'', ''How'', ''When'',
      ''Where'', ''Which'', ''Who'', ''No'', ''Yes'', ''Not'', ''And'', ''But'', ''For'',
      ''With'', ''From'', ''Into'', ''Over'', ''Under'', ''After'', ''Before'', ''Between'',
      ''Through'', ''During'', ''Without'', ''Within'', ''Along'', ''Following'',
      ''Across'', ''Behind'', ''Beyond'', ''Also'', ''However'', ''Moreover'',
      ''Furthermore'', ''Additionally'', ''Meanwhile'', ''Nevertheless'',
      ''Action'', ''Risk'', ''Source'', ''Key'', ''New'', ''Major'']"

text \<open>
  The lookbehind \<open>(?<=[.!?]\s+\w+\s+|,\s+|;\s+|:\s+|-\s+)\<close>, on the reversed text before
  the position: a run of white space, then one of \<open>, ; : -\<close>, or a word, white space
  and one of \<open>. ! ?\<close>. The classes are disjoint, so each run is the maximal one.
\<close>

definition lookbehind :: "string \<Rightarrow> bool" where
  "lookbehind rpre =
     (let r1 = dropWhile isSpace rpre
      in r1 \<noteq> rpre \<and>
         (case r1 of
            [] \<Rightarrow> False
          | c # r \<Rightarrow>
              c \<in> set '',;:-'' \<or>
              (let r2 = dropWhile isWordChar r1;
                   r3 = dropWhile isSpace r2
               in r2 \<noteq> r1 \<and> r3 \<noteq> r2 \<and>
                  (case r3 of [] \<Rightarrow> False | d # r4 \<Rightarrow> d \<in> set ''.!?''))))"

text \<open>\<open>[A-Z][a-z]+\<close> at the start of \<open>s\<close>: the word and the rest.\<close>

definition capWord :: "string \<Rightarrow> (string \<times> string) option" where
  "capWord s =
     (case s of
        [] \<Rightarrow> None
      | c # r \<Rightarrow>
          if isUpper c \<and> takeWhile isLower r \<noteq> []
          then Some (c # takeWhile isLower r, dropWhile isLower r)
          else None)"

text \<open>\<open>(?:\s+[A-Z][a-z]+)*\<close> at the start of \<open>s\<close>, greedy: the text it matches.\<close>

function capMore :: "string \<Rightarrow> string" where
  "capMore s =
     (if takeWhile isSpace s = [] then []
      else (case capWord (dropWhile isSpace s) of
              None \<Rightarrow> []
            | Some (w, r) \<Rightarrow> takeWhile isSpace s @ w @ capMore r))"
  by pat_completeness auto
termination
proof (relation "measure length")
  fix s :: string and x2 w r
  assume "capWord (dropWhile isSpace s) = Some x2" and "(w, r) = x2"
  then have "capWord (dropWhile isSpace s) = Some (w, r)"
    by simp
  then have "length r < length (dropWhile isSpace s)"
    by (auto simp: capWord_def less_Suc_eq_le length_dropWhile_le split: list.splits if_splits)
  moreover have "length (dropWhile isSpace s) \<le> length s"
    by (rule length_dropWhile_le)
  ultimately show "(r, s) \<in> measure length"
    by simp
qed simp

text \<open>\<open>([A-Z][a-z]+(?:\s+[A-Z][a-z]+)*)\<close> at the start of \<open>s\<close>.\<close>

definition capture :: "string \<Rightarrow> string option" where
  "capture s = (case capWord s of None \<Rightarrow> None | Some (w, r) \<Rightarrow> Some (w @ capMore r))"

text \<open>
  The \<open>exec\<close> loop of the first pattern: \<open>rpre\<close> is the reversed text before the
  position; after a match the next search starts at its end (\<open>skip\<close> characters on).
\<close>

fun scanEntities :: "nat \<Rightarrow> string \<Rightarrow> string \<Rightarrow> string list" where
  "scanEntities skip rpre [] = []"
| "scanEntities skip rpre (c # s) =
     (if skip > 0 then scanEntities (skip - 1) (c # rpre) s
      else if lookbehind rpre then
        (case capture (c # s) of
           Some m \<Rightarrow> m # scanEntities (length m - 1) (c # rpre) s
         | None \<Rightarrow> scanEntities 0 (c # rpre) s)
      else scanEntities 0 (c # rpre) s)"

text \<open>
  \<open>/\b([A-Z]{2,6})\b/g\<close>: a run of two to six capitals with no word character before
  or after it. Inside a run the character before is a word character, so no second
  match starts there.
\<close>

fun scanAcronyms :: "bool \<Rightarrow> string \<Rightarrow> string list" where
  "scanAcronyms prevWord [] = []"
| "scanAcronyms prevWord (c # s) =
     (let run = takeWhile isUpper (c # s);
          after = dropWhile isUpper (c # s)
      in if \<not> prevWord \<and> 2 \<le> length run \<and> length run \<le> 6 \<and>
            (case after of [] \<Rightarrow> True | a # r \<Rightarrow> \<not> isWordChar a)
         then run # scanAcronyms (isWordChar c) s
         else scanAcronyms (isWordChar c) s)"

text \<open>\<open>entities.add(e)\<close> on a \<open>Set\<close>, which keeps insertion order.\<close>

definition addEntity :: "string list \<Rightarrow> string \<Rightarrow> string list" where
  "addEntity es e = (if e \<in> set es then es else es @ [e])"

definition extractEntities :: "DeepDiveReportData \<Rightarrow> string list" where
  "extractEntities report =
     (let txt = serializeReport report;
          named = filter (\<lambda>candidate. candidate \<notin> set commonWords \<and> length candidate > 2)
                    (scanEntities 0 [] txt);
          acronyms = filter (\<lambda>acr. acr \<notin> set [''AND'', ''THE'', ''FOR'', ''NOT'', ''BUT'', ''NOR'', ''YET''])
                       (scanAcronyms False txt)
      in foldl addEntity [] (named @ acronyms))"

text \<open>\<open>s.split(/[.!?]+/)\<close>: the pieces between the runs of separators.\<close>

fun splitSentences :: "bool \<Rightarrow> string \<Rightarrow> string list" where
  "splitSentences inSep [] = [[]]"
| "splitSentences inSep (c # s) =
     (if c \<in> set ''.!?'' then
        (if inSep then splitSentences True s else [] # splitSentences True s)
      else (case splitSentences False s of
              [] \<Rightarrow> [[c]]
            | l # ls \<Rightarrow> (c # l) # ls))"

text \<open>
  \<open>validateReport\<close> (validators). The two ratio tests are comparisons of a quotient or
  product of small integers with \<open>0.2\<close> and \<open>0.3\<close>; they are written over the integers
  (\<open>v / n > 0.2\<close> as \<open>5 * v > n\<close>, \<open>u > n * 0.3\<close> as \<open>10 * u > 3 * n\<close>).
\<close>

definition sectionChecks :: "DeepDiveReportData \<Rightarrow> ValidationError list" where
  "sectionChecks report =
     (if length (trim (headline report)) < 5 then [HeadlineMissingOrShort] else [])
     @ (if whatHappened report = [] then [WhatHappenedEmpty] else [])
     @ (if length (whatHappened report) < 3 \<or> length (whatHappened report) > 6
        then [WhatHappenedBounds] else [])
     @ (if whatChanged report = [] then [WhatChangedEmpty] else [])
     @ (if whyItMatters report = [] then [WhyItMattersEmpty] else [])
     @ (if length (whyItMatters report) \<noteq> 3 then [WhyItMattersCount] else [])
     @ (if risks report = [] then [RisksEmpty] else [])
     @ (if actionPrompts report = [] then [ActionPromptsEmpty] else [])
     @ (if length (actionPrompts report) \<noteq> 3 then [ActionPromptsCount] else [])
     @ (if sources report = [] then [SourcesEmpty] else [])"

definition validateReport :: "DeepDiveReportData \<Rightarrow> string list \<Rightarrow> ValidationResult" where
  "validateReport report sourceTexts =
     (let errors1 = sectionChecks report;
          fullText = toLowerCase (serializeReport report);
          errors2 = map BannedPhrase
                      (filter (\<lambda>phrase. str_includes fullText (toLowerCase phrase)) BANNED_PHRASES);
          exclamationCount = length (filter (\<lambda>c. c = CHR ''!'') fullText);
          errors3 = (if exclamationCount > 1 then [TooManyExclamations exclamationCount] else []);
          errors4 =
            (if sourceTexts \<noteq> [] then
               (let entities = extractEntities report;
                    combinedSourceText = toLowerCase (join '' '' sourceTexts);
                    ungrounded = filter (\<lambda>e. \<not> str_includes combinedSourceText (toLowerCase e))
                                   entities
                in if entities \<noteq> [] \<and> 10 * length ungrounded > 3 * length entities
                   then [UngroundedEntities (length ungrounded) (length entities)
                           (take 5 ungrounded)]
                   else [])
             else []);
          sentences = filter (\<lambda>s. length (trim s) > 10) (splitSentences False fullText);
          errors5 =
            (if sentences \<noteq> [] then
               (let vagueCount =
                      length (filter (\<lambda>s. list_ex (\<lambda>p. str_includes s (toLowerCase p))
                                              BANNED_PHRASES) sentences)
                in if 5 * vagueCount > length sentences
                   then [VagueFiller vagueCount (length sentences)]
                   else [])
             else []);
          errs = errors1 @ errors2 @ errors3 @ errors4 @ errors5
      in \<lparr>valid = (errs = []), errors = errs\<rparr>)"

section \<open>SYNTHESIZE\<close>

text \<open>A number inside a template literal: its decimal digits.\<close>

function showNat :: "nat \<Rightarrow> string" where
  "showNat n =
     (if n < 10 then [''0123456789'' ! n]
      else showNat (n div 10) @ [''0123456789'' ! (n mod 10)])"
  by pat_completeness auto
termination
  by (relation "measure id") auto

definition fallbackSourceLine :: "nat \<Rightarrow> DeepDiveSource \<Rightarrow> string" where
  "fallbackSourceLine i s =
     showNat (i + 1) @ ''. ['' @ (case title s of Some t \<Rightarrow> t | None \<Rightarrow> ''Source'')
     @ '']('' @ url s @ '') '' @ [em_dash] @ '' ''
     @ (case sourceName s of Some n \<Rightarrow> n | None \<Rightarrow> ''Unknown'')"

definition generateFallbackReport :: "DeepDiveSource list \<Rightarrow> string \<Rightarrow> string" where
  "generateFallbackReport srcs topic =
     join [newline]
       [''# '' @ topic @ '' '' @ [em_dash] @ '' Weekly Overview'',
        '''',
        ''## What Happened'',
        ''- Multiple sources reported on developments related to '' @ topic,
        ''- Coverage spans '' @ showNat (length srcs) @ '' sources from the past week'',
        ''- Full synthesis was not possible due to processing constraints'',
        '''',
        ''## What Changed'',
        ''- No meaningful change identified.'',
        '''',
        ''## Why It Matters'',
        ''- Developments in '' @ topic @ '' may affect client advisory and compliance strategies'',
        ''- Multiple independent sources indicate sustained activity in this area'',
        ''- Monitoring recommended for emerging regulatory or market signals'',
        '''',
        ''## Risks / Watch-outs'',
        ''- Limited source availability may indicate early-stage developments'',
        ''- Follow up with primary source review recommended'',
        '''',
        ''## Action Prompts'',
        ''- Review the linked sources below for detailed coverage'',
        ''- Flag any client-relevant developments for team discussion'',
        ''- Schedule a follow-up deep dive for next week if warranted'',
        '''',
        ''## Sources'',
        join [newline] (map (\<lambda>(i, s). fallbackSourceLine i s) (zip [0..<length srcs] srcs))]"

definition minimalMarkdown :: "string \<Rightarrow> string" where
  "minimalMarkdown lbl =
     join [newline]
       [''# '' @ lbl @ '' '' @ [em_dash] @ '' No Coverage Available'',
        '''',
        ''## What Happened'',
        ''- No accessible sources were found for this topic in the past week'',
        '''',
        ''## What Changed'',
        ''- No meaningful change identified.'',
        '''',
        ''## Why It Matters'',
        ''- Absence of coverage may indicate a quiet period for this topic'',
        ''- Consider broadening search terms or adding related interests'',
        ''- Regular monitoring will capture emerging developments'',
        '''',
        ''## Risks / Watch-outs'',
        ''- Low coverage does not necessarily mean low activity'',
        ''- Manual research may be warranted for time-sensitive topics'',
        '''',
        ''## Action Prompts'',
        ''- Review your deep dive topic settings to ensure they match current priorities'',
        ''- Consider adding related interests to broaden coverage'',
        ''- Check back next week for updated coverage'',
        '''',
        ''## Sources'',
        ''- No sources available for this period'']"

definition createMinimalReport :: "Db \<Rightarrow> string \<Rightarrow> Outcome" where
  "createMinimalReport db jid =
     (case findJob db jid of
        None \<Rightarrow> Threw db
      | Some job \<Rightarrow>
          let lbl = (case findInterest db (topicInterestId job) of
                       Some i \<Rightarrow> label i
                     | None \<Rightarrow> ''Topic'');
              md = minimalMarkdown lbl;
              st = fromJson (state job)
          in Returned (updateJob jid
               (\<lambda>j. j\<lparr>status := Partial,
                       state := toJson (st\<lparr>stage := PUBLISH,
                                  synthesis := Some \<lparr>strategy = MapReduce, retryCount = 0,
                                                      partialMarkdown = Some md\<rparr>\<rparr>)\<rparr>) db))"

text \<open>The sources \<open>synthesizeReport\<close> loads: ok, with text, at most the configured number.\<close>

definition okSources :: "Env \<Rightarrow> Db \<Rightarrow> string \<Rightarrow> DeepDiveSource list" where
  "okSources env db jid =
     take (DEEP_DIVE_MAX_SYNTHESIS_SOURCES env)
       (filter (\<lambda>s. jobId s = jid \<and> accessStatus s = AsOk \<and> extractedText s \<noteq> None)
          (deepDiveSources db))"

text \<open>The value of a string that has been tested truthy.\<close>

definition strOf :: "string option \<Rightarrow> string" where
  "strOf v = (case v of None \<Rightarrow> [] | Some s \<Rightarrow> s)"

text \<open>
  \<open>synthesizeReport\<close> (synthesize). \<open>chatDirect\<close> and \<open>chatMapReduce\<close> are the generation
  calls of \<open>synthesizeDirect\<close> and \<open>synthesizeMapReduce\<close>, which catch every error and
  return null instead. The three clock readings are those of the three
  \<open>hasTimeRemaining\<close> tests, in the order of the text.
\<close>

definition synthesizeReport :: "Env \<Rightarrow> Db \<Rightarrow> string \<Rightarrow> int \<Rightarrow> Outcome" where
  "synthesizeReport env db jid maxDuration =
     (case findJob db jid of
        None \<Rightarrow> Threw db
      | Some job \<Rightarrow>
          let st = fromJson (state job);
              srcs = okSources env db jid
          in if srcs = [] then createMinimalReport db jid
             else
               let topicLabel = (case findInterest db (topicInterestId job) of
                                   Some i \<Rightarrow> label i
                                 | None \<Rightarrow> ''Unknown Topic'');
                   strat = (case synthesis st of Some sy \<Rightarrow> strategy sy | None \<Rightarrow> DeepResearch);
                   retries = (case synthesis st of Some sy \<Rightarrow> retryCount sy | None \<Rightarrow> 0);
                   md1 = (if strat = DeepResearch \<and>
                             hasTimeRemaining (synthNow env 0) (synthStart env) maxDuration 15000
                          then chatDirect env srcs topicLabel (retries > 0)
                          else None);
                   md2 = (if \<not> truthy md1 \<and>
                             hasTimeRemaining (synthNow env 1) (synthStart env) maxDuration 15000
                          then chatMapReduce env srcs topicLabel
                          else md1);
                   md3 = (if \<not> truthy md2 then generateFallbackReport srcs topicLabel
                          else strOf md2);
                   report = parseReportMarkdown md3;
                   sourceTexts = map (\<lambda>s. strOf (extractedText s)) srcs;
                   validation = validateReport report sourceTexts;
                   retry = (\<not> valid validation \<and> retries = 0 \<and>
                            hasTimeRemaining (synthNow env 2) (synthStart env) maxDuration 15000);
                   db1 = (if retry
                          then updateJob jid
                                 (\<lambda>j. j\<lparr>state := toJson (st\<lparr>stage := SYNTHESIZE,
                                            synthesis := Some \<lparr>strategy = strat, retryCount = 1,
                                                                partialMarkdown = None\<rparr>\<rparr>)\<rparr>) db
                          else db);
                   retryMarkdown = chatDirect env srcs topicLabel True;
                   md4 = (if retry \<and> truthy retryMarkdown \<and>
                             valid (validateReport (parseReportMarkdown (strOf retryMarkdown))
                                      sourceTexts)
                          then strOf retryMarkdown
                          else md3);
                   finalState = st\<lparr>stage := PUBLISH,
                                  synthesis := Some \<lparr>strategy = strat, retryCount = retries,
                                                      partialMarkdown = Some md4\<rparr>\<rparr>
               in Returned (updateJob jid
                    (\<lambda>j. j\<lparr>state := toJson finalState,
                            status := (if valid validation then status job else Partial)\<rparr>) db1))"

section \<open>PUBLISH\<close>

text \<open>
  \<open>publishReport\<close> (publish). \<open>renderHtml\<close> is \<open>marked\<close> followed by
  \<open>DOMPurify.sanitize\<close> (\<open>None\<close> when it throws); \<open>createTokenSet\<close> may reject; a
  rejected \<open>sendEmail\<close> is caught. The job's user is a required relation.
\<close>

definition publishReport :: "Env \<Rightarrow> Db \<Rightarrow> string \<Rightarrow> Outcome" where
  "publishReport env db jid =
     (case findJob db jid of
        None \<Rightarrow> Threw db
      | Some job \<Rightarrow>
          if findReport db jid \<noteq> None then
            Returned (updateJob jid (\<lambda>j. j\<lparr>status := Complete\<rparr>) db)
          else
            let st = fromJson (state job);
                md = (case synthesis st of Some sy \<Rightarrow> partialMarkdown sy | None \<Rightarrow> None)
            in if \<not> truthy md then
                 Returned (updateJob jid (\<lambda>j. j\<lparr>status := Failed\<rparr>) db)
               else
                 let topicLabel = (case findInterest db (topicInterestId job) of
                                     Some i \<Rightarrow> label i
                                   | None \<Rightarrow> ''Deep Dive'');
                     subj = ''Deep Dive '' @ [em_dash] @ '' '' @ topicLabel @ '' '' @ [em_dash]
                            @ '' '' @ monthDay env
                 in (case renderHtml env (strOf md) of
                       None \<Rightarrow> Threw db
                     | Some safeHtml \<Rightarrow>
                         let rid = genId env (length (deepDiveReports db));
                             db1 = db\<lparr>deepDiveReports := deepDiveReports db @
                                        [\<lparr>report_id = rid, report_jobId = jid, subject = subj,
                                          markdown = strOf md, html = safeHtml\<rparr>]\<rparr>
                         in if createTokenSetThrows env then Threw db1
                            else
                              (case findUser db1 (userId job) of
                                 None \<Rightarrow> Threw db1
                               | Some user \<Rightarrow>
                                   let wanted = (case profile user of
                                                   None \<Rightarrow> False
                                                 | Some p \<Rightarrow> emailEnabled p \<and> \<not> paused p);
                                       db2 = (if wanted \<and> \<not> sendEmailThrows env
                                              then db1\<lparr>sentEmails := sentEmails db1 @ [(email user, subj)],
                                                      emailEvents := emailEvents db1 @
                                                        [\<lparr>ev_userId = user_id user, ev_reportId = rid\<rparr>]\<rparr>
                                              else db1);
                                       finalStatus = (if status job = Partial then Partial else Complete);
                                       finalState = st\<lparr>publish :=
                                                       Some \<lparr>reportId = Some rid, emailSent = True\<rparr>\<rparr>
                                   in Returned (updateJob jid
                                        (\<lambda>j. j\<lparr>status := finalStatus,
                                                state := toJson finalState\<rparr>) db2))))"

section \<open>The orchestrator\<close>

definition MAX_ATTEMPTS :: nat where
  "MAX_ATTEMPTS = 3"

definition dispatch :: "Env \<Rightarrow> Db \<Rightarrow> string \<Rightarrow> int \<Rightarrow> DeepDiveState \<Rightarrow> Outcome" where
  "dispatch env db jid remainingTime st =
     (case stage st of
        DISCOVER \<Rightarrow> discoverCandidates env db jid
      | FETCH \<Rightarrow> fetchAndExtractBatch env db jid remainingTime
      | SYNTHESIZE \<Rightarrow> synthesizeReport env db jid remainingTime
      | PUBLISH \<Rightarrow> publishReport env db jid
      | UnknownStage \<Rightarrow>
          Returned (updateJob jid (\<lambda>j. j\<lparr>state := toJson initialState\<rparr>) db))"

text \<open>
  The \<open>catch\<close> block of \<open>deepDiveStep\<close>: \<open>db\<close> is the database as the failed stage left
  it, \<open>st\<close> the state read before the dispatch, \<open>newAttempt\<close> the incremented counter.
\<close>

definition onStepError :: "Env \<Rightarrow> Db \<Rightarrow> string \<Rightarrow> DeepDiveState \<Rightarrow> nat \<Rightarrow> Db" where
  "onStepError env db jid st newAttempt =
     (if newAttempt \<ge> MAX_ATTEMPTS then
        let currentState = (case findJob db jid of
                              Some currentJob \<Rightarrow> fromJson (state currentJob)
                            | None \<Rightarrow> st)
        in if stage currentState \<noteq> PUBLISH then
             (case publishReport env
                     (updateJob jid
                        (\<lambda>j. j\<lparr>status := Partial,
                                state := toJson (currentState\<lparr>stage := PUBLISH,
                                  synthesis := Some (case synthesis currentState of
                                                       Some sy \<Rightarrow> sy
                                                     | None \<Rightarrow> \<lparr>strategy = MapReduce, retryCount = 0,
                                                                 partialMarkdown = None\<rparr>)\<rparr>)\<rparr>) db)
                     jid of
                Returned db' \<Rightarrow> db'
              | Threw db' \<Rightarrow> updateJob jid (\<lambda>j. j\<lparr>status := Failed\<rparr>) db')
           else db
      else updateJob jid (\<lambda>j. j\<lparr>status := Queued\<rparr>) db)"

definition deepDiveStep :: "Env \<Rightarrow> Db \<Rightarrow> string \<Rightarrow> int \<Rightarrow> Db" where
  "deepDiveStep env db jid maxDuration =
     (case findJob db jid of
        None \<Rightarrow> db
      | Some job \<Rightarrow>
          if status job \<in> set [Complete, Aborted, Failed] then db
          else
            let newAttempt = attempt job + 1;
                db1 = updateJob jid (\<lambda>j. j\<lparr>attempt := newAttempt, status := Running\<rparr>) db;
                st = fromJson (state job);
                remainingTime = maxDuration - (dispatchAt env - stepStart env)
            in (case dispatch env db1 jid remainingTime st of
                  Returned db2 \<Rightarrow> db2
                | Threw db2 \<Rightarrow> onStepError env db2 jid st newAttempt))"

section \<open>The scheduler\<close>

text \<open>
  \<open>getDayOfWeek\<close> and \<open>getMondayOfWeek\<close> (lib/utils): both read the local calendar
  date of the instant in the time zone and take its day of the week in UTC; day 0 of
  the epoch was a Thursday. A \<open>runWeek\<close> is the day number of a Monday.
\<close>

definition getDayOfWeek :: "Env \<Rightarrow> int \<Rightarrow> string \<Rightarrow> string" where
  "getDayOfWeek env date tz =
     [''SU'', ''MO'', ''TU'', ''WE'', ''TH'', ''FR'', ''SA'']
       ! nat ((localDate env date tz + 4) mod 7)"

definition getMondayOfWeek :: "Env \<Rightarrow> int \<Rightarrow> string \<Rightarrow> int" where
  "getMondayOfWeek env date tz =
     (let local = localDate env date tz;
          day = (local + 4) mod 7;
          diff = (if day = 0 then - 6 else 1 - day)
      in local + diff)"

definition selectTopicForUser :: "Db \<Rightarrow> string \<Rightarrow> string list \<Rightarrow> string option" where
  "selectTopicForUser db uid topics =
     (case topics of
        [] \<Rightarrow> None
      | [t] \<Rightarrow> Some t
      | t # ts \<Rightarrow>
          let recentJobs =
                take (length topics)
                  (map topicInterestId
                     (filter (\<lambda>j. userId j = uid \<and> topicInterestId j \<in> set topics)
                        (rev (deepDiveJobs db))))
          in (case find (\<lambda>topic. topic \<notin> set recentJobs) topics of
                Some topic \<Rightarrow> Some topic
              | None \<Rightarrow> if recentJobs \<noteq> [] then Some (last recentJobs) else Some t))"

definition findJobForWeek :: "Db \<Rightarrow> string \<Rightarrow> int \<Rightarrow> DeepDiveJob option" where
  "findJobForWeek db uid week = find (\<lambda>j. userId j = uid \<and> runWeek j = week) (deepDiveJobs db)"

definition newJob :: "Env \<Rightarrow> Db \<Rightarrow> string \<Rightarrow> int \<Rightarrow> string \<Rightarrow> DeepDiveJob" where
  "newJob env db uid week topicId =
     \<lparr>job_id = genId env (length (deepDiveJobs db)), userId = uid, runWeek = week,
      status = Queued, attempt = 0, topicInterestId = topicId, state = toJson initialState\<rparr>"

text \<open>
  The loop of \<open>scheduleDeepDives\<close> over the enabled configurations with their users,
  threading the tables and the count of created jobs; \<open>i\<close> counts the iterations.
\<close>

fun scheduleLoop :: "Env \<Rightarrow> nat \<Rightarrow> (DeepDiveConfig \<times> User) list \<Rightarrow> Db \<times> nat \<Rightarrow> Db \<times> nat" where
  "scheduleLoop env i [] acc = acc"
| "scheduleLoop env i ((config, user) # rest) (db, created) =
     (if deepDiveTopics user = [] then scheduleLoop env (i + 1) rest (db, created)
      else
        let now = schedNow env i;
            todayDow = getDayOfWeek env now (timezone user)
        in if todayDow \<noteq> dayOfWeek config then scheduleLoop env (i + 1) rest (db, created)
           else
             let monday = getMondayOfWeek env now (timezone user)
             in if findJobForWeek db (user_id user) monday \<noteq> None
                then scheduleLoop env (i + 1) rest (db, created)
                else
                  (case selectTopicForUser db (user_id user) (deepDiveTopics user) of
                     None \<Rightarrow> scheduleLoop env (i + 1) rest (db, created)
                   | Some topicId \<Rightarrow>
                       if topicId = [] then scheduleLoop env (i + 1) rest (db, created)
                       else
                         scheduleLoop env (i + 1) rest
                           (db\<lparr>deepDiveJobs := deepDiveJobs db @
                                  [newJob env db (user_id user) monday topicId]\<rparr>,
                            created + 1)))"

definition enabledConfigs :: "Db \<Rightarrow> (DeepDiveConfig \<times> User) list" where
  "enabledConfigs db =
     concat (map (\<lambda>u. case deepDiveConfig u of
                         None \<Rightarrow> []
                       | Some c \<Rightarrow> if enabled c then [(c, u)] else [])
               (users db))"

definition scheduleDeepDives :: "Env \<Rightarrow> Db \<Rightarrow> Db \<times> nat" where
  "scheduleDeepDives env db = scheduleLoop env 0 (enabledConfigs db) (db, 0)"

section \<open>Sequences of invocations, and what the properties count\<close>

datatype Invocation =
    Step Env string int
  | Publish Env string
  | Schedule Env

fun dbOf :: "Outcome \<Rightarrow> Db" where
  "dbOf (Returned db) = db"
| "dbOf (Threw db) = db"

fun invoke :: "Db \<Rightarrow> Invocation \<Rightarrow> Db" where
  "invoke db (Step env jid maxDuration) = deepDiveStep env db jid maxDuration"
| "invoke db (Publish env jid) = dbOf (publishReport env db jid)"
| "invoke db (Schedule env) = fst (scheduleDeepDives env db)"

definition invokeAll :: "Db \<Rightarrow> Invocation list \<Rightarrow> Db" where
  "invokeAll db calls = foldl invoke db calls"

definition countReports :: "Db \<Rightarrow> string \<Rightarrow> nat" where
  "countReports db jid = length (filter (\<lambda>r. report_jobId r = jid) (deepDiveReports db))"

definition countJobs :: "Db \<Rightarrow> string \<Rightarrow> int \<Rightarrow> nat" where
  "countJobs db uid week =
     length (filter (\<lambda>j. userId j = uid \<and> runWeek j = week) (deepDiveJobs db))"

text \<open>The stage and the status recorded for a job, when the job exists.\<close>

definition jobStage :: "Db \<Rightarrow> string \<Rightarrow> Stage option" where
  "jobStage db jid = map_option (\<lambda>j. stage (fromJson (state j))) (findJob db jid)"

definition jobStatus :: "Db \<Rightarrow> string \<Rightarrow> JobStatus option" where
  "jobStatus db jid = map_option status (findJob db jid)"

definition jobSynthesis :: "Db \<Rightarrow> string \<Rightarrow> Synthesis option" where
  "jobSynthesis db jid =
     (case findJob db jid of None \<Rightarrow> None | Some j \<Rightarrow> synthesis (fromJson (state j)))"

definition jobFetch :: "Db \<Rightarrow> string \<Rightarrow> FetchProgress option" where
  "jobFetch db jid =
     (case findJob db jid of None \<Rightarrow> None | Some j \<Rightarrow> fetch (fromJson (state j)))"

text \<open>The order \<open>DISCOVER < FETCH < SYNTHESIZE < PUBLISH\<close> on the four declared stages.\<close>

fun stageRank :: "Stage \<Rightarrow> nat option" where
  "stageRank DISCOVER = Some 0"
| "stageRank FETCH = Some 1"
| "stageRank SYNTHESIZE = Some 2"
| "stageRank PUBLISH = Some 3"
| "stageRank UnknownStage = None"

definition stageLe :: "Stage \<Rightarrow> Stage \<Rightarrow> bool" where
  "stageLe a b =
     (case (stageRank a, stageRank b) of
        (Some m, Some n) \<Rightarrow> m \<le> n
      | _ \<Rightarrow> False)"

section \<open>Vocabulary of the properties, and sample data\<close>

text \<open>The two paywall tests of \<open>fetchSingleSource\<close> on a successful response.\<close>

definition hasPaywallSignal :: "Response \<Rightarrow> bool" where
  "hasPaywallSignal r =
     (list_ex (\<lambda>p. str_includes (finalUrl r) p) PAYWALL_URL_PATTERNS \<or>
      list_ex (\<lambda>marker. str_includes (toLowerCase (htmlBody r)) marker) PAYWALL_MARKERS)"

text \<open>The text \<open>fetchSingleSource\<close> measures: the content selector's, or the body's.\<close>

definition readableText :: "Page \<Rightarrow> string" where
  "readableText pg =
     (if length (case contentText pg of None \<Rightarrow> [] | Some t \<Rightarrow> t) < MIN_READABLE_CHARS
      then bodyText pg
      else (case contentText pg of None \<Rightarrow> [] | Some t \<Rightarrow> t))"

definition exampleEnv :: Env where
  "exampleEnv =
     \<lparr>genId = (\<lambda>n. ''id'' @ showNat n), stepStart = 0, dispatchAt = 0,
      DEEP_DIVE_MAX_SOURCES = 12,
      articleMatches = (\<lambda>uid iid. []), articleSearch = (\<lambda>lbl. []), corpusThrows = False,
      canonicalizeUrl = (\<lambda>u. u), extractDomain = (\<lambda>u. u), sourceTiers = [],
      blockPatterns = [],
      DEEP_DIVE_MAX_FETCH_PER_INVOCATION = 4, fetchStart = 0, fetchNow = (\<lambda>i. 0),
      httpGet = (\<lambda>u. FetchFailed), storeThrows = (\<lambda>u. False),
      DEEP_DIVE_MAX_SYNTHESIS_SOURCES = 8, synthStart = 0, synthNow = (\<lambda>i. 0),
      chatDirect = (\<lambda>srcs topic strict. None), chatMapReduce = (\<lambda>srcs topic. None),
      monthDay = ''March 3'', renderHtml = (\<lambda>md. Some md),
      createTokenSetThrows = False, sendEmailThrows = False,
      schedNow = (\<lambda>i. 0), localDate = (\<lambda>d tz. 4)\<rparr>"

definition exampleUser :: User where
  "exampleUser =
     \<lparr>user_id = ''u1'', email = ''reader@example.com'', timezone = ''UTC'',
      profile = Some \<lparr>emailEnabled = True, paused = False\<rparr>,
      deepDiveConfig = Some \<lparr>enabled = True, dayOfWeek = ''MO'', maxSources = 6\<rparr>,
      deepDiveTopics = [''i1'']\<rparr>"

definition exampleJob :: DeepDiveJob where
  "exampleJob =
     \<lparr>job_id = ''j1'', userId = ''u1'', runWeek = 4, status = Queued, attempt = 0,
      topicInterestId = ''i1'', state = None\<rparr>"

definition exampleDb :: Db where
  "exampleDb =
     \<lparr>deepDiveJobs = [exampleJob], deepDiveSources = [], deepDiveReports = [],
      interests = [\<lparr>interest_id = ''i1'', label = ''AI''\<rparr>], users = [exampleUser],
      emailEvents = [], sentEmails = []\<rparr>"

definition examplePage :: "string \<Rightarrow> Page" where
  "examplePage txt =
     \<lparr>ogTitle = None, titleText = ''A page'', ogSiteName = None, contentText = Some txt,
      bodyText = []\<rparr>"

definition exampleResponse :: "string \<Rightarrow> string \<Rightarrow> Response" where
  "exampleResponse body txt =
     \<lparr>statusCode = 200, finalUrl = ''https://example.com/a'', htmlBody = body,
      page = examplePage txt\<rparr>"

text \<open>
  How a stage may change the jobs table: only rows with the given id, and never their
  id, user or week.
\<close>

definition keepsKeys :: "(DeepDiveJob \<Rightarrow> DeepDiveJob) \<Rightarrow> bool" where
  "keepsKeys g =
     (\<forall>j. job_id (g j) = job_id j \<and> userId (g j) = userId j \<and> runWeek (g j) = runWeek j)"

definition jobsUpdated :: "string \<Rightarrow> Db \<Rightarrow> Db \<Rightarrow> bool" where
  "jobsUpdated jid db db' =
     (\<exists>g. keepsKeys g \<and>
          deepDiveJobs db' = map (\<lambda>j. if job_id j = jid then g j else j) (deepDiveJobs db))"

text \<open>The state \<open>onStepError\<close> writes when the ceiling is reached outside \<open>PUBLISH\<close>.\<close>

definition forcedState :: "DeepDiveState \<Rightarrow> DeepDiveState" where
  "forcedState cs =
     cs\<lparr>stage := PUBLISH,
        synthesis := Some (case synthesis cs of
                             Some sy \<Rightarrow> sy
                           | None \<Rightarrow> \<lparr>strategy = MapReduce, retryCount = 0,
                                       partialMarkdown = None\<rparr>)\<rparr>"

text \<open>A job in \<open>FETCH\<close> with four unfetched sources, and a network where every page reads.\<close>

definition exampleSource :: "string \<Rightarrow> string \<Rightarrow> DeepDiveSource" where
  "exampleSource sid u =
     \<lparr>source_id = sid, jobId = ''j1'', url = u, accessStatus = AsUnknown, title = None,
      extractedText = None, sourceName = None\<rparr>"

definition fetchState :: DeepDiveState where
  "fetchState =
     initialState\<lparr>stage := FETCH,
       fetch := Some \<lparr>totalSources = 4, fetchedCount = 0, okCount = 0, nextIndex = 0\<rparr>\<rparr>"

definition fetchDb :: Db where
  "fetchDb =
     exampleDb\<lparr>deepDiveJobs := [exampleJob\<lparr>status := Running, state := Some fetchState\<rparr>],
       deepDiveSources := [exampleSource ''s1'' ''https://a.example/1'',
                           exampleSource ''s2'' ''https://a.example/2'',
                           exampleSource ''s3'' ''https://a.example/3'',
                           exampleSource ''s4'' ''https://a.example/4'']\<rparr>"

definition readableEnv :: Env where
  "readableEnv =
     exampleEnv\<lparr>httpGet := (\<lambda>u. Reply (exampleResponse ''hello'' (replicate 1300 (CHR ''a''))))\<rparr>"

text \<open>The sample job after a discovery that found no candidates.\<close>

definition noCandidatesDb :: Db where
  "noCandidatesDb =
     exampleDb\<lparr>deepDiveJobs :=
       [exampleJob\<lparr>status := Partial,
          state := Some \<lparr>stage = SYNTHESIZE,
                         discovery = Some \<lparr>candidateUrls = [], selectedCount = 0\<rparr>,
                         fetch = None, synthesis = None, publish = None, error = None\<rparr>\<rparr>]\<rparr>"

text \<open>
  A job in \<open>PUBLISH\<close> on its third attempt with a draft to publish, and an environment in
  which issuing the link tokens fails.
\<close>

definition publishState :: DeepDiveState where
  "publishState =
     initialState\<lparr>stage := PUBLISH,
       synthesis := Some \<lparr>strategy = DeepResearch, retryCount = 0,
                          partialMarkdown = Some ''# Weekly report''\<rparr>\<rparr>"

definition publishDb :: Db where
  "publishDb =
     exampleDb\<lparr>deepDiveJobs := [exampleJob\<lparr>attempt := 2, state := Some publishState\<rparr>]\<rparr>"

definition tokenFailEnv :: Env where
  "tokenFailEnv = exampleEnv\<lparr>createTokenSetThrows := True\<rparr>"

text \<open>The sample job, complete, with its report.\<close>

definition publishedDb :: Db where
  "publishedDb =
     exampleDb\<lparr>deepDiveJobs := [exampleJob\<lparr>status := Partial, attempt := 3,
                                             state := Some publishState\<rparr>],
       deepDiveReports := [\<lparr>report_id = ''r1'', report_jobId = ''j1'', subject = ''Deep Dive'',
                             markdown = ''# Weekly report'', html = ''# Weekly report''\<rparr>]\<rparr>"

text \<open>
  A report whose ``What Changed'' has five bullets and whose ``Risks / Watch-outs'' has one.
\<close>

definition sampleReport :: DeepDiveReportData where
  "sampleReport =
     \<lparr>headline = ''Bank rules update'',
      whatHappened = [''a'', ''b'', ''c''],
      whatChanged = [''d'', ''e'', ''f'', ''g'', ''h''],
      whyItMatters = [''i'', ''j'', ''k''],
      risks = [''l''],
      actionPrompts = [''m'', ''n'', ''o''],
      sources = [\<lparr>cite_title = ''p'', cite_url = ''https://a.example/1'', cite_source = ''q'',
                 cite_date = None\<rparr>]\<rparr>"

text \<open>
  A job in \<open>SYNTHESIZE\<close> with one ok source, and a generation service whose first answer
  is not a report and whose answer to the stricter prompt is a well-formed one.
\<close>

definition goodMarkdown :: string where
  "goodMarkdown =
     join [newline]
       [''# bank rules update'',
        ''## What Happened'', ''- a'', ''- b'', ''- c'',
        ''## What Changed'', ''- d'', ''- e'',
        ''## Why It Matters'', ''- f'', ''- g'', ''- h'',
        ''## Risks / Watch-outs'', ''- i'', ''- j'',
        ''## Action Prompts'', ''- k'', ''- l'', ''- m'',
        ''## Sources'', ''1. [n](https://a.example/1) '' @ [em_dash] @ '' o'']"

definition synthState :: DeepDiveState where
  "synthState =
     initialState\<lparr>stage := SYNTHESIZE,
       synthesis := Some \<lparr>strategy = DeepResearch, retryCount = 0, partialMarkdown = None\<rparr>\<rparr>"

definition synthDb :: Db where
  "synthDb =
     exampleDb\<lparr>deepDiveJobs := [exampleJob\<lparr>status := Running, attempt := 1,
                                             state := Some synthState\<rparr>],
       deepDiveSources :=
         [\<lparr>source_id = ''s1'', jobId = ''j1'', url = ''https://a.example/1'', accessStatus = AsOk,
           title = Some ''n'', extractedText = Some ''some text about banks'',
           sourceName = Some ''o''\<rparr>]\<rparr>"

definition retryEnv :: Env where
  "retryEnv =
     exampleEnv\<lparr>chatDirect :=
       (\<lambda>srcs topic strict. if strict then Some goodMarkdown else Some ''not a report'')\<rparr>"

section \<open>Properties of the string helpers\<close>

lemma lastIndexOf_bounds: "- 1 \<le> lastIndexOf s c \<and> lastIndexOf s c < int (length s)"
  by (induction s) (auto simp: Let_def)

lemma lastIndexOf_nth: "0 \<le> lastIndexOf s c \<Longrightarrow> s ! nat (lastIndexOf s c) = c"
proof (induction s)
  case Nil
  then show ?case by simp
next
  case (Cons x xs)
  show ?case
  proof (cases "0 \<le> lastIndexOf xs c")
    case True
    then have "nat (lastIndexOf xs c + 1) = Suc (nat (lastIndexOf xs c))" by simp
    with True Cons.IH show ?thesis by (simp add: Let_def)
  next
    case False
    with Cons.prems show ?thesis by (auto simp: Let_def split: if_splits)
  qed
qed

lemma lastIndexOf_absent: "c \<notin> set s \<Longrightarrow> lastIndexOf s c = - 1"
  by (induction s) (auto simp: Let_def)

lemma lastIndexOf_append: "c \<notin> set ys \<Longrightarrow> lastIndexOf (xs @ c # ys) c = int (length xs)"
  by (induction xs) (auto simp: Let_def lastIndexOf_absent)

lemma truncateText_short: "length t \<le> n \<Longrightarrow> truncateText t n = t"
  by (simp add: truncateText_def)

lemma truncateText_le: "n < length t \<Longrightarrow> length (truncateText t n) \<le> n"
  by (auto simp: truncateText_def Let_def)

lemma truncateText_prefix: "truncateText t n = take (length (truncateText t n)) t"
  using lastIndexOf_bounds[of "take n t" "CHR '' ''"]
  by (auto simp: truncateText_def Let_def min_def)

lemma truncateText_cut:
  assumes "length t > n" and "5 * lastIndexOf (take n t) (CHR '' '') > 4 * int n"
  shows "length (truncateText t n) = nat (lastIndexOf (take n t) (CHR '' '')) \<and>
         t ! length (truncateText t n) = CHR '' ''"
proof -
  let ?i = "lastIndexOf (take n t) (CHR '' '')"
  have b: "?i < int (length (take n t))" using lastIndexOf_bounds by blast
  have nn: "0 \<le> ?i" using assms(2) by linarith
  have lt: "nat ?i < n" using b assms(1) nn by simp
  have eq: "truncateText t n = take (nat ?i) t"
    using assms lt by (simp add: truncateText_def Let_def min_def)
  have "take n t ! nat ?i = CHR '' ''" using lastIndexOf_nth[OF nn] .
  then have "t ! nat ?i = CHR '' ''" using lt by simp
  moreover have "length (take (nat ?i) t) = nat ?i" using lt assms(1) by simp
  ultimately show ?thesis using eq by simp
qed

lemma truncateText_hard:
  "length t > n \<Longrightarrow> \<not> 5 * lastIndexOf (take n t) (CHR '' '') > 4 * int n \<Longrightarrow>
   truncateText t n = take n t"
  by (simp add: truncateText_def Let_def)

lemma fetchSingleSource_status:
  "fr_status (fetchSingleSource doFetch u) =
     (case doFetch u of
        FetchFailed \<Rightarrow> AsBlocked
      | Reply r \<Rightarrow>
          if statusCode r = 401 \<or> statusCode r = 403 then AsPaywalled
          else if \<not> responseOk r then AsBlocked
          else if hasPaywallSignal r then AsPaywalled
          else if length (readableText (page r)) < MIN_READABLE_CHARS then AsBlocked
          else AsOk)"
  by (simp add: fetchSingleSource_def hasPaywallSignal_def readableText_def Let_def
      split: FetchReply.splits)

lemma fetchSingleSource_ok_text:
  assumes "fr_status (fetchSingleSource doFetch u) = AsOk"
  shows "\<exists>r. doFetch u = Reply r \<and> MIN_READABLE_CHARS \<le> length (readableText (page r)) \<and>
             fr_text (fetchSingleSource doFetch u) = Some (readableText (page r)) \<and>
             storedText (fetchSingleSource doFetch u)
               = Some (truncateText (readableText (page r)) MAX_EXTRACTED_TEXT)"
proof (cases "doFetch u")
  case FetchFailed
  with assms show ?thesis by (simp add: fetchSingleSource_def)
next
  case (Reply r)
  from assms Reply have ok: "MIN_READABLE_CHARS \<le> length (readableText (page r))"
    by (simp add: fetchSingleSource_status split: if_splits)
  then have ne: "readableText (page r) \<noteq> []" by (auto simp: MIN_READABLE_CHARS_def)
  from assms Reply have tx: "fr_text (fetchSingleSource doFetch u) = Some (readableText (page r))"
    by (auto simp: fetchSingleSource_def readableText_def Let_def split: if_splits)
  with ne have "storedText (fetchSingleSource doFetch u)
               = Some (truncateText (readableText (page r)) MAX_EXTRACTED_TEXT)"
    by (simp add: storedText_def truthy_def)
  with Reply ok tx show ?thesis by simp
qed

section \<open>Lemmas on the tables\<close>

lemma find_None_filter: "(find P xs = None) = (filter P xs = [])"
  by (induction xs) auto

lemma findJob_updateJob:
  assumes "\<And>j. job_id (f j) = job_id j"
  shows "findJob (updateJob jid f db) jid' =
           (if jid' = jid then map_option f (findJob db jid) else findJob db jid')"
proof -
  have "find (\<lambda>j. job_id j = jid') (map (\<lambda>j. if job_id j = jid then f j else j) xs) =
        (if jid' = jid then map_option f (find (\<lambda>j. job_id j = jid) xs)
         else find (\<lambda>j. job_id j = jid') xs)" for xs
    by (induction xs) (auto simp: assms)
  then show ?thesis by (simp add: findJob_def updateJob_def)
qed

lemma tables_updateJob [simp]:
  "deepDiveReports (updateJob jid f db) = deepDiveReports db"
  "deepDiveSources (updateJob jid f db) = deepDiveSources db"
  "interests (updateJob jid f db) = interests db"
  "users (updateJob jid f db) = users db"
  by (simp_all add: updateJob_def)

lemma tables_updateSource [simp]:
  "deepDiveReports (updateSource sid f db) = deepDiveReports db"
  "deepDiveJobs (updateSource sid f db) = deepDiveJobs db"
  "interests (updateSource sid f db) = interests db"
  "users (updateSource sid f db) = users db"
  by (simp_all add: updateSource_def)

lemma fetchLoop_tables:
  "fetchLoop env d i srcs (db, a, b) = (db', a', b') \<Longrightarrow>
     deepDiveJobs db' = deepDiveJobs db \<and> deepDiveReports db' = deepDiveReports db"
proof (induction srcs arbitrary: db a b i)
  case Nil
  then show ?case by simp
next
  case (Cons s srcs)
  then show ?case
    by (auto simp: Let_def split: if_splits)
qed

lemma fetchBatch_tables:
  "fetchBatch env db jid d st = (db', a', b') \<Longrightarrow>
     deepDiveJobs db' = deepDiveJobs db \<and> deepDiveReports db' = deepDiveReports db"
  unfolding fetchBatch_def by (rule fetchLoop_tables)

lemma findJob_cong: "deepDiveJobs db' = deepDiveJobs db \<Longrightarrow> findJob db' jid = findJob db jid"
  by (simp add: findJob_def)

lemma fetchAndExtractBatch_next:
  assumes "findJob db jid = Some job"
    and "fetchBatch env db jid maxDuration (fromJson (state job)) = (db1, fetched, oks)"
  shows "\<exists>db'. fetchAndExtractBatch env db jid maxDuration = Returned db' \<and>
           deepDiveSources db' = deepDiveSources db1 \<and>
           (if oks \<ge> 4 then
              jobStage db' jid = Some SYNTHESIZE \<and>
              map_option strategy (jobSynthesis db' jid) = Some DeepResearch \<and>
              jobStatus db' jid = Some (status job)
            else if length (unfetchedSources db1 jid) > 0 then
              jobStage db' jid = Some FETCH \<and>
              map_option fetchedCount (jobFetch db' jid) = Some fetched \<and>
              map_option okCount (jobFetch db' jid) = Some oks \<and>
              map_option nextIndex (jobFetch db' jid) = Some fetched \<and>
              jobStatus db' jid = Some (status job)
            else if oks \<ge> 2 then
              jobStage db' jid = Some SYNTHESIZE \<and>
              map_option strategy (jobSynthesis db' jid) = Some DeepResearch \<and>
              jobStatus db' jid = Some Partial
            else
              jobStage db' jid = Some SYNTHESIZE \<and>
              map_option strategy (jobSynthesis db' jid) = Some MapReduce \<and>
              jobStatus db' jid = Some Partial)"
proof -
  from fetchBatch_tables[OF assms(2)] have "findJob db1 jid = Some job"
    using assms(1) by (simp add: findJob_def)
  then show ?thesis
    using assms
    by (simp add: fetchAndExtractBatch_def Let_def findJob_updateJob jobStage_def jobStatus_def
        jobSynthesis_def jobFetch_def fromJson_def toJson_def)
qed

lemma discoverCandidates_cases:
  assumes "discoverCandidates env db jid = Returned db1"
  shows "\<exists>job. findJob db jid = Some job \<and>
      (db1 = updateJob jid
               (\<lambda>j. j\<lparr>status := Failed,
                       state := Some (initialState\<lparr>error := Some ''Interest not found''\<rparr>)\<rparr>) db
       \<or> db1 = updateJob jid
               (\<lambda>j. j\<lparr>status := Partial,
                       state := toJson
                         \<lparr>stage = SYNTHESIZE,
                          discovery = Some \<lparr>candidateUrls = [], selectedCount = 0\<rparr>,
                          fetch = None, synthesis = None, publish = None, error = None\<rparr>\<rparr>) db
       \<or> (\<exists>selected. selected \<noteq> [] \<and>
             db1 = updateJob jid
               (\<lambda>j. j\<lparr>state := toJson
                         \<lparr>stage = FETCH,
                          discovery = Some \<lparr>candidateUrls = selected,
                                            selectedCount = length selected\<rparr>,
                          fetch = Some \<lparr>totalSources = length selected, fetchedCount = 0,
                                        okCount = 0, nextIndex = 0\<rparr>,
                          synthesis = None, publish = None, error = None\<rparr>\<rparr>)
               (db\<lparr>deepDiveSources := createSources env jid selected (deepDiveSources db)\<rparr>)))"
proof (cases "findJob db jid")
  case None
  with assms show ?thesis by (simp add: discoverCandidates_def)
next
  case (Some job)
  note j = this
  show ?thesis
  proof (cases "findUser db (userId job)")
    case None
    with assms j show ?thesis by (simp add: discoverCandidates_def)
  next
    case (Some user)
    note u = this
    show ?thesis
    proof (cases "findInterest db (topicInterestId job)")
      case None
      with assms j u have "db1 = updateJob jid
               (\<lambda>j. j\<lparr>status := Failed,
                       state := Some (initialState\<lparr>error := Some ''Interest not found''\<rparr>)\<rparr>) db"
        by (simp add: discoverCandidates_def)
      with j show ?thesis by blast
    next
      case (Some interest)
      note i = this
      define sel where "sel = selectCandidates env
          (case deepDiveConfig user of Some c \<Rightarrow> maxSources c | None \<Rightarrow> DEEP_DIVE_MAX_SOURCES env)
          job interest"
      show ?thesis
      proof (cases "sel = []")
        case True
        with assms j u i have "db1 = updateJob jid
               (\<lambda>j. j\<lparr>status := Partial,
                       state := toJson
                         \<lparr>stage = SYNTHESIZE,
                          discovery = Some \<lparr>candidateUrls = [], selectedCount = 0\<rparr>,
                          fetch = None, synthesis = None, publish = None, error = None\<rparr>\<rparr>) db"
          unfolding discoverCandidates_def Let_def sel_def
          by (simp split: if_splits)
        with j show ?thesis by blast
      next
        case False
        with assms j u i have "db1 = updateJob jid
               (\<lambda>j. j\<lparr>state := toJson
                         \<lparr>stage = FETCH,
                          discovery = Some \<lparr>candidateUrls = sel,
                                            selectedCount = length sel\<rparr>,
                          fetch = Some \<lparr>totalSources = length sel, fetchedCount = 0,
                                        okCount = 0, nextIndex = 0\<rparr>,
                          synthesis = None, publish = None, error = None\<rparr>\<rparr>)
               (db\<lparr>deepDiveSources := createSources env jid sel (deepDiveSources db)\<rparr>)"
          unfolding discoverCandidates_def Let_def sel_def
          by (simp split: if_splits)
        with j False show ?thesis by blast
      qed
    qed
  qed
qed

lemma jobsUpdated_same: "deepDiveJobs db' = deepDiveJobs db \<Longrightarrow> jobsUpdated jid db db'"
  unfolding jobsUpdated_def keepsKeys_def
  by (rule exI[of _ "\<lambda>j. j"]) (simp add: map_idI)

lemma jobsUpdated_updateJob:
  assumes "keepsKeys f" and "jobsUpdated jid db db'"
  shows "jobsUpdated jid db (updateJob jid f db')"
proof -
  from assms(2) obtain g where g: "keepsKeys g"
    and e: "deepDiveJobs db' = map (\<lambda>j. if job_id j = jid then g j else j) (deepDiveJobs db)"
    unfolding jobsUpdated_def by blast
  have k: "keepsKeys (f \<circ> g)" using assms(1) g by (simp add: keepsKeys_def)
  have "deepDiveJobs (updateJob jid f db')
          = map (\<lambda>j. if job_id j = jid then (f \<circ> g) j else j) (deepDiveJobs db)"
    using g by (simp add: updateJob_def e keepsKeys_def)
  with k show ?thesis unfolding jobsUpdated_def by blast
qed

lemma keepsKeys_fields [simp]:
  "keepsKeys (\<lambda>j. j\<lparr>status := a\<rparr>)"
  "keepsKeys (\<lambda>j. j\<lparr>state := b\<rparr>)"
  "keepsKeys (\<lambda>j. j\<lparr>status := a, state := b\<rparr>)"
  "keepsKeys (\<lambda>j. j\<lparr>state := b, status := a\<rparr>)"
  "keepsKeys (\<lambda>j. j\<lparr>attempt := n, status := a\<rparr>)"
  by (simp_all add: keepsKeys_def)

lemma jobsUpdated_other:
  assumes "jobsUpdated jid db db'" and "jid' \<noteq> jid"
  shows "findJob db' jid' = findJob db jid'"
proof -
  from assms(1) obtain g where g: "keepsKeys g"
    and e: "deepDiveJobs db' = map (\<lambda>j. if job_id j = jid then g j else j) (deepDiveJobs db)"
    unfolding jobsUpdated_def by blast
  have "find (\<lambda>j. job_id j = jid') (map (\<lambda>j. if job_id j = jid then g j else j) xs)
          = find (\<lambda>j. job_id j = jid') xs" for xs
    using assms(2) g by (induction xs) (auto simp: keepsKeys_def)
  then show ?thesis by (simp add: findJob_def e)
qed

lemma jobsUpdated_exists:
  assumes "jobsUpdated jid db db'"
  shows "(findJob db' jid' = None) = (findJob db jid' = None)"
proof -
  from assms(1) obtain g where g: "keepsKeys g"
    and e: "deepDiveJobs db' = map (\<lambda>j. if job_id j = jid then g j else j) (deepDiveJobs db)"
    unfolding jobsUpdated_def by blast
  have "(find (\<lambda>j. job_id j = jid') (map (\<lambda>j. if job_id j = jid then g j else j) xs) = None)
          = (find (\<lambda>j. job_id j = jid') xs = None)" for xs
    using g by (induction xs) (auto simp: keepsKeys_def)
  then show ?thesis by (simp add: findJob_def e)
qed

lemma jobsUpdated_countJobs:
  assumes "jobsUpdated jid db db'"
  shows "countJobs db' uid week = countJobs db uid week"
proof -
  from assms(1) obtain g where g: "keepsKeys g"
    and e: "deepDiveJobs db' = map (\<lambda>j. if job_id j = jid then g j else j) (deepDiveJobs db)"
    unfolding jobsUpdated_def by blast
  have "length (filter (\<lambda>j. userId j = uid \<and> runWeek j = week)
                  (map (\<lambda>j. if job_id j = jid then g j else j) xs))
          = length (filter (\<lambda>j. userId j = uid \<and> runWeek j = week) xs)" for xs
    using g by (induction xs) (auto simp: keepsKeys_def)
  then show ?thesis by (simp add: countJobs_def e)
qed

lemma discover_jobsUpdated: "jobsUpdated jid db (dbOf (discoverCandidates env db jid))"
  by (simp add: discoverCandidates_def Let_def jobsUpdated_updateJob jobsUpdated_same
      split: option.splits)

lemma discover_reports: "deepDiveReports (dbOf (discoverCandidates env db jid)) = deepDiveReports db"
  by (simp add: discoverCandidates_def Let_def split: option.splits)

lemma fetch_jobsUpdated: "jobsUpdated jid db (dbOf (fetchAndExtractBatch env db jid d))"
proof (cases "findJob db jid")
  case None
  then show ?thesis by (simp add: fetchAndExtractBatch_def jobsUpdated_same)
next
  case (Some job)
  obtain db1 a b where f: "fetchBatch env db jid d (fromJson (state job)) = (db1, a, b)"
    by (cases "fetchBatch env db jid d (fromJson (state job))") auto
  from fetchBatch_tables[OF f] have "jobsUpdated jid db db1" by (simp add: jobsUpdated_same)
  with Some f show ?thesis
    by (simp add: fetchAndExtractBatch_def Let_def jobsUpdated_updateJob)
qed

lemma fetch_reports: "deepDiveReports (dbOf (fetchAndExtractBatch env db jid d)) = deepDiveReports db"
proof (cases "findJob db jid")
  case None
  then show ?thesis by (simp add: fetchAndExtractBatch_def)
next
  case (Some job)
  obtain db1 a b where f: "fetchBatch env db jid d (fromJson (state job)) = (db1, a, b)"
    by (cases "fetchBatch env db jid d (fromJson (state job))") auto
  from fetchBatch_tables[OF f] Some f show ?thesis
    by (simp add: fetchAndExtractBatch_def Let_def)
qed

lemma minimal_jobsUpdated: "jobsUpdated jid db (dbOf (createMinimalReport db jid))"
  by (simp add: createMinimalReport_def Let_def jobsUpdated_updateJob jobsUpdated_same
      split: option.splits)

lemma minimal_reports: "deepDiveReports (dbOf (createMinimalReport db jid)) = deepDiveReports db"
  by (simp add: createMinimalReport_def Let_def split: option.splits)

lemma synth_jobsUpdated: "jobsUpdated jid db (dbOf (synthesizeReport env db jid d))"
proof (cases "findJob db jid")
  case None
  then show ?thesis by (simp add: synthesizeReport_def jobsUpdated_same)
next
  case (Some job)
  then show ?thesis
    by (simp add: synthesizeReport_def Let_def jobsUpdated_updateJob jobsUpdated_same
      minimal_jobsUpdated)
qed

lemma synth_reports: "deepDiveReports (dbOf (synthesizeReport env db jid d)) = deepDiveReports db"
proof (cases "findJob db jid")
  case None
  then show ?thesis by (simp add: synthesizeReport_def)
next
  case (Some job)
  then show ?thesis
    by (simp add: synthesizeReport_def Let_def minimal_reports)
qed

section \<open>Lemmas on publishing\<close>

lemma findUser_reports [simp]: "findUser (db\<lparr>deepDiveReports := X\<rparr>) u = findUser db u"
  by (simp add: findUser_def)

text \<open>The five ways \<open>publishReport\<close> ends on an existing job.\<close>

lemma publishReport_cases [consumes 1, case_names Already NoMarkdown RenderThrew AfterCreate Published]:
  assumes "findJob db jid = Some job"
  obtains
    "findReport db jid \<noteq> None"
      "publishReport env db jid = Returned (updateJob jid (\<lambda>j. j\<lparr>status := Complete\<rparr>) db)"
  | "findReport db jid = None"
      "publishReport env db jid = Returned (updateJob jid (\<lambda>j. j\<lparr>status := Failed\<rparr>) db)"
  | "findReport db jid = None" "publishReport env db jid = Threw db"
  | r where "findReport db jid = None" "report_jobId r = jid"
      "publishReport env db jid = Threw (db\<lparr>deepDiveReports := deepDiveReports db @ [r]\<rparr>)"
  | r db2 pub where "findReport db jid = None" "report_jobId r = jid"
      "deepDiveJobs db2 = deepDiveJobs db" "deepDiveReports db2 = deepDiveReports db @ [r]"
      "publishReport env db jid =
         Returned (updateJob jid
           (\<lambda>j. j\<lparr>status := (if status job = Partial then Partial else Complete),
                   state := toJson ((fromJson (state job))\<lparr>publish := pub\<rparr>)\<rparr>) db2)"
proof (cases "findReport db jid")
  case (Some r)
  with assms have "publishReport env db jid
                     = Returned (updateJob jid (\<lambda>j. j\<lparr>status := Complete\<rparr>) db)"
    by (simp add: publishReport_def)
  with Some show ?thesis by (intro that(1)) simp_all
next
  case None
  note nr = this
  define md where "md = (case synthesis (fromJson (state job)) of
                           Some sy \<Rightarrow> partialMarkdown sy | None \<Rightarrow> None)"
  show ?thesis
  proof (cases "truthy md")
    case False
    with assms nr have "publishReport env db jid
                          = Returned (updateJob jid (\<lambda>j. j\<lparr>status := Failed\<rparr>) db)"
      by (simp add: publishReport_def md_def Let_def)
    with nr show ?thesis by (intro that(2))
  next
    case True
    note tr = this
    show ?thesis
    proof (cases "renderHtml env (strOf md)")
      case None
      with assms nr tr have "publishReport env db jid = Threw db"
        by (simp add: publishReport_def md_def Let_def)
      with nr show ?thesis by (intro that(3))
    next
      case (Some safeHtml)
      note rh = this
      define subj where "subj = ''Deep Dive '' @ [em_dash] @ '' ''
           @ (case findInterest db (topicInterestId job) of Some i \<Rightarrow> label i | None \<Rightarrow> ''Deep Dive'')
           @ '' '' @ [em_dash] @ '' '' @ monthDay env"
      define r where "r = \<lparr>report_id = genId env (length (deepDiveReports db)), report_jobId = jid,
                            subject = subj, markdown = strOf md, html = safeHtml\<rparr>"
      have rj: "report_jobId r = jid" by (simp add: r_def)
      show ?thesis
      proof (cases "createTokenSetThrows env \<or> findUser db (userId job) = None")
        case True
        with assms nr tr rh
        have "publishReport env db jid = Threw (db\<lparr>deepDiveReports := deepDiveReports db @ [r]\<rparr>)"
          by (auto simp: publishReport_def md_def Let_def r_def subj_def)
        with nr rj show ?thesis by (intro that(4))
      next
        case False
        then obtain user where u: "findUser db (userId job) = Some user"
          and nt: "\<not> createTokenSetThrows env"
          by auto
        define db1 where "db1 = db\<lparr>deepDiveReports := deepDiveReports db @ [r]\<rparr>"
        define wanted where "wanted = (case profile user of None \<Rightarrow> False
                                         | Some p \<Rightarrow> emailEnabled p \<and> \<not> paused p)"
        define db2 where "db2 = (if wanted \<and> \<not> sendEmailThrows env
                                 then db1\<lparr>sentEmails := sentEmails db1 @ [(email user, subj)],
                                         emailEvents := emailEvents db1 @
                                            [\<lparr>ev_userId = user_id user, ev_reportId = report_id r\<rparr>]\<rparr>
                                 else db1)"
        have t1: "deepDiveJobs db2 = deepDiveJobs db"
          and t2: "deepDiveReports db2 = deepDiveReports db @ [r]"
          by (simp_all add: db2_def db1_def)
        from assms nr tr rh u nt
        have "publishReport env db jid =
                Returned (updateJob jid
                  (\<lambda>j. j\<lparr>status := (if status job = Partial then Partial else Complete),
                          state := toJson ((fromJson (state job))\<lparr>publish :=
                             Some \<lparr>reportId = Some (report_id r), emailSent = True\<rparr>\<rparr>)\<rparr>) db2)"
          by (simp add: publishReport_def md_def Let_def r_def subj_def db2_def db1_def wanted_def)
        with nr rj t1 t2 show ?thesis by (intro that(5))
      qed
    qed
  qed
qed

lemma publishReport_missing: "findJob db jid = None \<Longrightarrow> publishReport env db jid = Threw db"
  by (simp add: publishReport_def)

lemma findJob_updateJob_keys:
  "keepsKeys f \<Longrightarrow> findJob (updateJob jid f db) jid' =
           (if jid' = jid then map_option f (findJob db jid) else findJob db jid')"
  by (rule findJob_updateJob) (simp add: keepsKeys_def)

lemma publish_jobsUpdated: "jobsUpdated jid db (dbOf (publishReport env db jid))"
proof (cases "findJob db jid")
  case None
  then show ?thesis by (simp add: publishReport_missing jobsUpdated_same)
next
  case (Some job)
  then show ?thesis
  proof (cases rule: publishReport_cases[where env = env])
    case (Published r db2 pub)
    then show ?thesis by (simp add: jobsUpdated_same jobsUpdated_updateJob)
  qed (simp_all add: jobsUpdated_same jobsUpdated_updateJob)
qed

lemma countReports_append:
  "countReports (db\<lparr>deepDiveReports := deepDiveReports db @ [r]\<rparr>) j
     = countReports db j + (if report_jobId r = j then 1 else 0)"
  by (simp add: countReports_def)

lemma countReports_cong:
  "deepDiveReports db' = deepDiveReports db \<Longrightarrow> countReports db' j = countReports db j"
  by (simp add: countReports_def)

lemma countReports_updateJob [simp]: "countReports (updateJob jid f db) j = countReports db j"
  by (simp add: countReports_def)

lemma findReport_None: "findReport db jid = None \<Longrightarrow> countReports db jid = 0"
  by (simp add: findReport_def countReports_def find_None_filter)

lemma publish_countReports:
  assumes "countReports db j \<le> 1"
  shows "countReports (dbOf (publishReport env db jid)) j \<le> 1"
proof (cases "findJob db jid")
  case None
  with assms show ?thesis by (simp add: publishReport_missing)
next
  case (Some job)
  then show ?thesis
  proof (cases rule: publishReport_cases[where env = env])
    case (AfterCreate r)
    with findReport_None[of db jid] assms show ?thesis
      by (auto simp: countReports_append)
  next
    case (Published r db2 pub)
    have "countReports db2 j = countReports db j + (if report_jobId r = j then 1 else 0)"
      using Published(4) by (simp add: countReports_def)
    with findReport_None[of db jid] Published(1,2,5) assms show ?thesis
      by auto
  qed (use assms in simp_all)
qed

lemma publish_stage: "jobStage (dbOf (publishReport env db jid)) jid' = jobStage db jid'"
proof (cases "findJob db jid")
  case None
  then show ?thesis by (simp add: publishReport_missing)
next
  case (Some job)
  show ?thesis
  proof (cases "jid' = jid")
    case False
    then show ?thesis
      using jobsUpdated_other[OF publish_jobsUpdated] by (simp add: jobStage_def)
  next
    case True
    from Some show ?thesis
    proof (cases rule: publishReport_cases[where env = env])
      case (Published r db2 pub)
      have "findJob db2 jid = Some job" using Published(3) Some by (simp add: findJob_def)
      with Published(5) True Some show ?thesis
        by (simp add: jobStage_def findJob_updateJob_keys fromJson_def toJson_def)
    qed (simp_all add: True jobStage_def findJob_updateJob_keys findJob_def[of "_\<lparr>deepDiveReports := _\<rparr>"]
           findJob_def[of db] option.map_comp comp_def)
  qed
qed

lemma publish_returned_status:
  assumes "findJob db jid = Some job" and "publishReport env db jid = Returned db'"
  shows "jobStatus db' jid = Some Complete \<or> jobStatus db' jid = Some Failed \<or>
         (jobStatus db' jid = Some Partial \<and> status job = Partial)"
  using assms(1)
proof (cases rule: publishReport_cases[where env = env])
  case (Published r db2 pub)
  have "findJob db2 jid = Some job" using Published(3) assms(1) by (simp add: findJob_def)
  with Published(5) assms show ?thesis
    by (auto simp: jobStatus_def findJob_updateJob_keys)
qed (use assms in \<open>auto simp: jobStatus_def findJob_updateJob_keys\<close>)

lemma publish_threw_jobs:
  assumes "publishReport env db jid = Threw db'"
  shows "deepDiveJobs db' = deepDiveJobs db"
proof (cases "findJob db jid")
  case None
  with assms show ?thesis by (simp add: publishReport_missing)
next
  case (Some job)
  then show ?thesis
    by (cases rule: publishReport_cases[where env = env]) (use assms in auto)
qed

section \<open>Lemmas on the stages and the orchestrator\<close>

lemma jobsUpdated_trans:
  assumes "jobsUpdated jid db db1" and "jobsUpdated jid db1 db2"
  shows "jobsUpdated jid db db2"
proof -
  from assms(1) obtain g where g: "keepsKeys g"
    and e: "deepDiveJobs db1 = map (\<lambda>j. if job_id j = jid then g j else j) (deepDiveJobs db)"
    unfolding jobsUpdated_def by blast
  from assms(2) obtain h where h: "keepsKeys h"
    and f: "deepDiveJobs db2 = map (\<lambda>j. if job_id j = jid then h j else j) (deepDiveJobs db1)"
    unfolding jobsUpdated_def by blast
  have k: "keepsKeys (h \<circ> g)" using g h by (simp add: keepsKeys_def)
  have "deepDiveJobs db2 = map (\<lambda>j. if job_id j = jid then (h \<circ> g) j else j) (deepDiveJobs db)"
    using g by (simp add: e f keepsKeys_def)
  with k show ?thesis unfolding jobsUpdated_def by blast
qed

lemma stageLe_refl: "a \<noteq> UnknownStage \<Longrightarrow> stageLe a a"
  by (cases a) (simp_all add: stageLe_def)

lemma stageLe_trans: "stageLe a b \<Longrightarrow> stageLe b c \<Longrightarrow> stageLe a c"
  by (cases a; cases b; cases c) (simp_all add: stageLe_def)

lemma stageLe_known: "stageLe a b \<Longrightarrow> a \<noteq> UnknownStage \<and> b \<noteq> UnknownStage"
  by (cases a; cases b) (simp_all add: stageLe_def)

lemma stageLe_PUBLISH: "a \<noteq> UnknownStage \<Longrightarrow> stageLe a PUBLISH"
  by (cases a) (simp_all add: stageLe_def)

lemma stageLe_DISCOVER: "b \<noteq> UnknownStage \<Longrightarrow> stageLe DISCOVER b"
  by (cases b) (simp_all add: stageLe_def)

lemma discover_stage:
  assumes "findJob db jid = Some job"
  shows "jobStage (dbOf (discoverCandidates env db jid)) jid \<in>
           {jobStage db jid, Some DISCOVER, Some FETCH, Some SYNTHESIZE}"
proof (cases "discoverCandidates env db jid")
  case (Threw db1)
  have "dbOf (discoverCandidates env db jid) = db"
  proof (cases "findUser db (userId job)")
    case None
    with assms Threw show ?thesis by (simp add: discoverCandidates_def)
  next
    case (Some user)
    note u = this
    show ?thesis
    proof (cases "findInterest db (topicInterestId job)")
      case None
      with assms u Threw show ?thesis by (simp add: discoverCandidates_def)
    next
      case (Some interest)
      with assms u Threw show ?thesis
        by (simp add: discoverCandidates_def Let_def split: if_splits)
    qed
  qed
  then show ?thesis by simp
next
  case (Returned db1)
  from discoverCandidates_cases[OF Returned] assms Returned show ?thesis
    by (auto simp: jobStage_def findJob_updateJob_keys fromJson_def toJson_def initialState_def
        findJob_def[of "_\<lparr>deepDiveSources := _\<rparr>"] findJob_def[of db])
qed

lemma fetch_stage:
  assumes "findJob db jid = Some job"
  shows "jobStage (dbOf (fetchAndExtractBatch env db jid d)) jid \<in> {Some FETCH, Some SYNTHESIZE}"
proof -
  obtain db1 a b where f: "fetchBatch env db jid d (fromJson (state job)) = (db1, a, b)"
    by (cases "fetchBatch env db jid d (fromJson (state job))") auto
  from fetchAndExtractBatch_next[OF assms f] show ?thesis
    by (auto split: if_splits)
qed

lemma synth_stage:
  assumes "findJob db jid = Some job"
  shows "\<exists>db'. synthesizeReport env db jid d = Returned db' \<and> jobStage db' jid = Some PUBLISH"
proof (cases "okSources env db jid = []")
  case True
  with assms have "synthesizeReport env db jid d = createMinimalReport db jid"
    by (simp add: synthesizeReport_def Let_def)
  then show ?thesis using assms
    by (simp add: createMinimalReport_def Let_def findJob_updateJob_keys jobStage_def
        fromJson_def toJson_def)
next
  case False
  with assms show ?thesis
    by (simp add: synthesizeReport_def Let_def findJob_updateJob_keys jobStage_def
        fromJson_def toJson_def)
qed

lemma dispatch_jobsUpdated: "jobsUpdated jid db (dbOf (dispatch env db jid t st))"
  by (cases "stage st")
     (simp_all add: dispatch_def discover_jobsUpdated fetch_jobsUpdated synth_jobsUpdated
        publish_jobsUpdated jobsUpdated_updateJob jobsUpdated_same)

lemma dispatch_reports:
  assumes "countReports db j \<le> 1"
  shows "countReports (dbOf (dispatch env db jid t st)) j \<le> 1"
proof (cases "stage st")
  case PUBLISH
  with publish_countReports[OF assms] show ?thesis by (simp add: dispatch_def)
qed (use assms in \<open>simp_all add: dispatch_def countReports_cong[OF discover_reports]
        countReports_cong[OF fetch_reports] countReports_cong[OF synth_reports]\<close>)

lemma dispatch_stage:
  assumes "findJob db jid = Some job" and "stage (fromJson (state job)) \<noteq> UnknownStage"
  shows "\<exists>b. jobStage (dbOf (dispatch env db jid t (fromJson (state job)))) jid = Some b \<and>
             stageLe (stage (fromJson (state job))) b"
proof (cases "stage (fromJson (state job))")
  case DISCOVER
  from discover_stage[OF assms(1), of env] assms(1) DISCOVER show ?thesis
    by (auto simp: dispatch_def jobStage_def stageLe_def)
next
  case FETCH
  from fetch_stage[OF assms(1), of env t] FETCH show ?thesis
    by (auto simp: dispatch_def stageLe_def)
next
  case SYNTHESIZE
  from synth_stage[OF assms(1), of env t] SYNTHESIZE show ?thesis
    by (auto simp: dispatch_def stageLe_def)
next
  case PUBLISH
  have "jobStage (dbOf (publishReport env db jid)) jid = Some PUBLISH"
    using assms(1) PUBLISH by (simp add: publish_stage) (simp add: jobStage_def)
  with PUBLISH show ?thesis
    by (simp add: dispatch_def stageLe_def)
next
  case UnknownStage
  with assms(2) show ?thesis by simp
qed

section \<open>Lemmas on the scheduler\<close>

lemma findJobForWeek_None: "findJobForWeek db uid week = None \<Longrightarrow> countJobs db uid week = 0"
  by (simp add: findJobForWeek_def countJobs_def find_None_filter)

lemma countJobs_append:
  "countJobs (db\<lparr>deepDiveJobs := deepDiveJobs db @ [j]\<rparr>) u w
     = countJobs db u w + (if userId j = u \<and> runWeek j = w then 1 else 0)"
  by (simp add: countJobs_def)

lemma newJob_keys [simp]:
  "userId (newJob env db uid week topicId) = uid"
  "runWeek (newJob env db uid week topicId) = week"
  "status (newJob env db uid week topicId) = Queued"
  "state (newJob env db uid week topicId) = toJson initialState"
  by (simp_all add: newJob_def)

text \<open>One iteration either leaves the tables alone or appends one job for a free key.\<close>

lemma scheduleLoop_step:
  "\<exists>dbn cn. scheduleLoop env i ((config, user) # rest) (db, created)
             = scheduleLoop env (i + 1) rest (dbn, cn) \<and>
     ((dbn = db \<and> cn = created) \<or>
      (\<exists>week topicId. findJobForWeek db (user_id user) week = None \<and>
          dbn = db\<lparr>deepDiveJobs := deepDiveJobs db @ [newJob env db (user_id user) week topicId]\<rparr> \<and>
          cn = created + 1))"
proof (cases "deepDiveTopics user = [] \<or>
              getDayOfWeek env (schedNow env i) (timezone user) \<noteq> dayOfWeek config \<or>
              findJobForWeek db (user_id user)
                (getMondayOfWeek env (schedNow env i) (timezone user)) \<noteq> None")
  case True
  then have "scheduleLoop env i ((config, user) # rest) (db, created)
             = scheduleLoop env (i + 1) rest (db, created)"
    by (auto simp: Let_def)
  then show ?thesis by blast
next
  case False
  note f = this
  show ?thesis
  proof (cases "selectTopicForUser db (user_id user) (deepDiveTopics user)")
    case None
    with f have "scheduleLoop env i ((config, user) # rest) (db, created)
             = scheduleLoop env (i + 1) rest (db, created)"
      by (simp add: Let_def)
    then show ?thesis by blast
  next
    case (Some topicId)
    show ?thesis
    proof (cases "topicId = []")
      case True
      with f Some have "scheduleLoop env i ((config, user) # rest) (db, created)
             = scheduleLoop env (i + 1) rest (db, created)"
        by (simp add: Let_def)
      then show ?thesis by blast
    next
      case False
      with f Some have "scheduleLoop env i ((config, user) # rest) (db, created)
             = scheduleLoop env (i + 1) rest
                 (db\<lparr>deepDiveJobs := deepDiveJobs db @
                        [newJob env db (user_id user)
                           (getMondayOfWeek env (schedNow env i) (timezone user)) topicId]\<rparr>,
                  created + 1)"
        by (simp add: Let_def)
      moreover from f have "findJobForWeek db (user_id user)
                (getMondayOfWeek env (schedNow env i) (timezone user)) = None"
        by simp
      ultimately show ?thesis
        by (intro exI conjI disjI2) (assumption, assumption, rule refl, rule refl)
    qed
  qed
qed

lemma scheduleLoop_effect:
  "scheduleLoop env i cfgs (db, c) = (db', c') \<Longrightarrow>
     (\<exists>new. deepDiveJobs db' = deepDiveJobs db @ new \<and> c' = c + length new) \<and>
     deepDiveReports db' = deepDiveReports db \<and>
     (countJobs db u w \<le> 1 \<longrightarrow> countJobs db' u w \<le> 1)"
proof (induction cfgs arbitrary: db c i)
  case Nil
  then show ?case by simp
next
  case (Cons cu rest)
  obtain config user where cu: "cu = (config, user)" by (cases cu)
  from scheduleLoop_step[of env i config user rest db c]
  obtain dbn cn where s: "scheduleLoop env i ((config, user) # rest) (db, c)
             = scheduleLoop env (i + 1) rest (dbn, cn)"
    and alt: "(dbn = db \<and> cn = c) \<or>
      (\<exists>week topicId. findJobForWeek db (user_id user) week = None \<and>
          dbn = db\<lparr>deepDiveJobs := deepDiveJobs db @ [newJob env db (user_id user) week topicId]\<rparr> \<and>
          cn = c + 1)"
    by blast
  from Cons.prems cu s have r: "scheduleLoop env (i + 1) rest (dbn, cn) = (db', c')" by simp
  note ih = Cons.IH[OF r]
  from alt show ?case
  proof
    assume "dbn = db \<and> cn = c"
    with ih show ?thesis by simp
  next
    assume "\<exists>week topicId. findJobForWeek db (user_id user) week = None \<and>
          dbn = db\<lparr>deepDiveJobs := deepDiveJobs db @ [newJob env db (user_id user) week topicId]\<rparr> \<and>
          cn = c + 1"
    then obtain week topicId where n: "findJobForWeek db (user_id user) week = None"
      and d: "dbn = db\<lparr>deepDiveJobs := deepDiveJobs db @ [newJob env db (user_id user) week topicId]\<rparr>"
      and e: "cn = c + 1" by blast
    have c1: "countJobs db u w \<le> 1 \<Longrightarrow> countJobs dbn u w \<le> 1"
      using findJobForWeek_None[OF n] by (auto simp: d countJobs_append)
    from ih d e c1 show ?thesis by auto
  qed
qed

lemma schedule_effect:
  "(\<exists>new. deepDiveJobs (fst (scheduleDeepDives env db)) = deepDiveJobs db @ new \<and>
          snd (scheduleDeepDives env db) = length new) \<and>
   deepDiveReports (fst (scheduleDeepDives env db)) = deepDiveReports db \<and>
   (countJobs db u w \<le> 1 \<longrightarrow> countJobs (fst (scheduleDeepDives env db)) u w \<le> 1)"
proof -
  obtain db' c' where s: "scheduleLoop env 0 (enabledConfigs db) (db, 0) = (db', c')"
    by (cases "scheduleLoop env 0 (enabledConfigs db) (db, 0)")
  from scheduleLoop_effect[OF s, of u w] s show ?thesis
    by (simp add: scheduleDeepDives_def)
qed

section \<open>Lemmas on the error handler and the step\<close>

lemma onStepError_unfold:
  assumes "findJob db jid = Some job"
  shows "onStepError env db jid st n =
     (if n \<ge> MAX_ATTEMPTS then
        if stage (fromJson (state job)) \<noteq> PUBLISH then
          (case publishReport env
                  (updateJob jid (\<lambda>j. j\<lparr>status := Partial,
                      state := toJson (forcedState (fromJson (state job)))\<rparr>) db) jid of
             Returned db' \<Rightarrow> db'
           | Threw db' \<Rightarrow> updateJob jid (\<lambda>j. j\<lparr>status := Failed\<rparr>) db')
        else db
      else updateJob jid (\<lambda>j. j\<lparr>status := Queued\<rparr>) db)"
  using assms by (simp add: onStepError_def forcedState_def Let_def)

lemma onStepError_missing:
  assumes "findJob db jid = None"
  shows "jobsUpdated jid db (onStepError env db jid st n) \<and>
         deepDiveReports (onStepError env db jid st n) = deepDiveReports db"
proof -
  have "findJob (updateJob jid f db) jid = None" if "keepsKeys f" for f
    using assms that by (simp add: findJob_updateJob_keys)
  then show ?thesis
    using assms
    by (simp add: onStepError_def Let_def publishReport_missing jobsUpdated_updateJob
        jobsUpdated_same)
qed

lemma onStepError_jobsUpdated: "jobsUpdated jid db (onStepError env db jid st n)"
proof (cases "findJob db jid")
  case None
  then show ?thesis by (simp add: onStepError_missing)
next
  case (Some job)
  let ?db1 = "updateJob jid (\<lambda>j. j\<lparr>status := Partial,
                      state := toJson (forcedState (fromJson (state job)))\<rparr>) db"
  have a: "jobsUpdated jid db ?db1"
    by (simp add: jobsUpdated_updateJob jobsUpdated_same)
  have b: "jobsUpdated jid db (dbOf (publishReport env ?db1 jid))"
    using jobsUpdated_trans[OF a publish_jobsUpdated] .
  show ?thesis
    unfolding onStepError_unfold[OF Some]
    using b
    by (cases "publishReport env ?db1 jid")
       (simp_all add: jobsUpdated_updateJob jobsUpdated_same)
qed

lemma onStepError_reports:
  assumes "countReports db j \<le> 1"
  shows "countReports (onStepError env db jid st n) j \<le> 1"
proof (cases "findJob db jid")
  case None
  with assms countReports_cong[of "onStepError env db jid st n" db j] show ?thesis
    by (simp add: onStepError_missing)
next
  case (Some job)
  let ?db1 = "updateJob jid (\<lambda>j. j\<lparr>status := Partial,
                      state := toJson (forcedState (fromJson (state job)))\<rparr>) db"
  have "countReports ?db1 j \<le> 1" using assms by simp
  from publish_countReports[OF this, of env jid] assms show ?thesis
    unfolding onStepError_unfold[OF Some]
    by (cases "publishReport env ?db1 jid") simp_all
qed

lemma forced_job:
  assumes "findJob db jid = Some job"
  shows "findJob (updateJob jid (\<lambda>j. j\<lparr>status := Partial,
                      state := toJson (forcedState (fromJson (state job)))\<rparr>) db) jid
           = Some (job\<lparr>status := Partial, state := toJson (forcedState (fromJson (state job)))\<rparr>)"
  using assms by (simp add: findJob_updateJob_keys)

lemma onStepError_stage:
  assumes "findJob db jid = Some job"
  shows "jobStage (onStepError env db jid st n) jid \<in> {jobStage db jid, Some PUBLISH}"
proof -
  let ?db1 = "updateJob jid (\<lambda>j. j\<lparr>status := Partial,
                      state := toJson (forcedState (fromJson (state job)))\<rparr>) db"
  have s1: "jobStage ?db1 jid = Some PUBLISH"
    unfolding jobStage_def forced_job[OF assms]
    by (simp add: forcedState_def fromJson_def toJson_def)
  have s2: "jobStage (dbOf (publishReport env ?db1 jid)) jid = Some PUBLISH"
    using s1 by (simp add: publish_stage)
  have s3: "jobStage (updateJob jid (\<lambda>j. j\<lparr>status := a\<rparr>) d) jid = jobStage d jid" for a d
    by (simp add: jobStage_def findJob_updateJob_keys option.map_comp comp_def)
  show ?thesis
    unfolding onStepError_unfold[OF assms]
    using s2 s3
    by (cases "publishReport env ?db1 jid") simp_all
qed

text \<open>The part of C1 that holds: outside \<open>PUBLISH\<close> the forced publish settles the status.\<close>

lemma onStepError_forced_status:
  assumes "findJob db jid = Some job" and "n \<ge> MAX_ATTEMPTS"
    and "stage (fromJson (state job)) \<noteq> PUBLISH"
  shows "jobStatus (onStepError env db jid st n) jid \<in> {Some Partial, Some Complete, Some Failed}"
proof -
  let ?db1 = "updateJob jid (\<lambda>j. j\<lparr>status := Partial,
                      state := toJson (forcedState (fromJson (state job)))\<rparr>) db"
  show ?thesis
  proof (cases "publishReport env ?db1 jid")
    case (Returned db')
    from publish_returned_status[OF forced_job[OF assms(1)] Returned] Returned assms show ?thesis
      by (auto simp: onStepError_unfold[OF assms(1)])
  next
    case (Threw db')
    from publish_threw_jobs[OF Threw] forced_job[OF assms(1)]
    have "findJob db' jid \<noteq> None" by (simp add: findJob_def)
    then have "jobStatus (updateJob jid (\<lambda>j. j\<lparr>status := Failed\<rparr>) db') jid = Some Failed"
      by (auto simp: jobStatus_def findJob_updateJob_keys)
    with Threw assms show ?thesis
      by (simp add: onStepError_unfold[OF assms(1)])
  qed
qed

lemma onStepError_publish_noop:
  assumes "findJob db jid = Some job" and "n \<ge> MAX_ATTEMPTS"
    and "stage (fromJson (state job)) = PUBLISH"
  shows "onStepError env db jid st n = db"
  using assms by (simp add: onStepError_unfold[OF assms(1)])

lemma step_noop:
  "findJob db jid = None \<Longrightarrow> deepDiveStep env db jid d = db"
  "findJob db jid = Some job \<Longrightarrow> status job \<in> {Complete, Aborted, Failed} \<Longrightarrow>
     deepDiveStep env db jid d = db"
  by (auto simp: deepDiveStep_def)

lemma step_unfold:
  assumes "findJob db jid = Some job" and "status job \<notin> {Complete, Aborted, Failed}"
  shows "deepDiveStep env db jid d =
     (case dispatch env (updateJob jid (\<lambda>j. j\<lparr>attempt := attempt job + 1, status := Running\<rparr>) db)
             jid (d - (dispatchAt env - stepStart env)) (fromJson (state job)) of
        Returned db2 \<Rightarrow> db2
      | Threw db2 \<Rightarrow> onStepError env db2 jid (fromJson (state job)) (attempt job + 1))"
  using assms by (simp add: deepDiveStep_def Let_def split: Outcome.splits)

lemma step_jobsUpdated: "jobsUpdated jid db (deepDiveStep env db jid d)"
proof (cases "findJob db jid")
  case None
  then show ?thesis by (simp add: step_noop jobsUpdated_same)
next
  case (Some job)
  show ?thesis
  proof (cases "status job \<in> {Complete, Aborted, Failed}")
    case True
    with Some show ?thesis by (simp add: step_noop(2)[OF Some] jobsUpdated_same)
  next
    case False
    let ?db1 = "updateJob jid (\<lambda>j. j\<lparr>attempt := attempt job + 1, status := Running\<rparr>) db"
    let ?out = "dispatch env ?db1 jid (d - (dispatchAt env - stepStart env)) (fromJson (state job))"
    have a: "jobsUpdated jid db ?db1" by (simp add: jobsUpdated_updateJob jobsUpdated_same)
    have b: "jobsUpdated jid db (dbOf ?out)"
      using jobsUpdated_trans[OF a dispatch_jobsUpdated] .
    show ?thesis
    proof (cases ?out)
      case (Returned db2)
      with b show ?thesis by (simp add: step_unfold[OF Some False])
    next
      case (Threw db2)
      with b jobsUpdated_trans[OF _ onStepError_jobsUpdated] show ?thesis
        by (simp add: step_unfold[OF Some False])
    qed
  qed
qed

lemma step_reports:
  assumes "countReports db j \<le> 1"
  shows "countReports (deepDiveStep env db jid d) j \<le> 1"
proof (cases "findJob db jid")
  case None
  with assms show ?thesis by (simp add: step_noop)
next
  case (Some job)
  show ?thesis
  proof (cases "status job \<in> {Complete, Aborted, Failed}")
    case True
    with Some assms show ?thesis by (simp add: step_noop(2)[OF Some])
  next
    case False
    let ?db1 = "updateJob jid (\<lambda>j. j\<lparr>attempt := attempt job + 1, status := Running\<rparr>) db"
    let ?out = "dispatch env ?db1 jid (d - (dispatchAt env - stepStart env)) (fromJson (state job))"
    have "countReports ?db1 j \<le> 1" using assms by simp
    from dispatch_reports[OF this] have b: "countReports (dbOf ?out) j \<le> 1" .
    show ?thesis
    proof (cases ?out)
      case (Returned db2)
      with b show ?thesis by (simp add: step_unfold[OF Some False])
    next
      case (Threw db2)
      with b onStepError_reports show ?thesis
        by (simp add: step_unfold[OF Some False])
    qed
  qed
qed

lemma step_stage:
  assumes "jobStage db j = Some a" and "a \<noteq> UnknownStage"
  shows "\<exists>b. jobStage (deepDiveStep env db jid d) j = Some b \<and> stageLe a b"
proof (cases "j = jid")
  case False
  with jobsUpdated_other[OF step_jobsUpdated, of j jid env db d]
  have "jobStage (deepDiveStep env db jid d) j = jobStage db j"
    by (simp add: jobStage_def)
  with assms show ?thesis by (simp add: stageLe_refl)
next
  case True
  from assms(1) True obtain job where job: "findJob db jid = Some job"
    and st: "stage (fromJson (state job)) = a"
    by (auto simp: jobStage_def)
  show ?thesis
  proof (cases "status job \<in> {Complete, Aborted, Failed}")
    case True
    with job assms \<open>j = jid\<close> show ?thesis by (simp add: step_noop(2)[OF job] stageLe_refl)
  next
    case False
    let ?job1 = "job\<lparr>attempt := attempt job + 1, status := Running\<rparr>"
    let ?db1 = "updateJob jid (\<lambda>j. j\<lparr>attempt := attempt job + 1, status := Running\<rparr>) db"
    let ?out = "dispatch env ?db1 jid (d - (dispatchAt env - stepStart env)) (fromJson (state job))"
    have j1: "findJob ?db1 jid = Some ?job1" using job by (simp add: findJob_updateJob_keys)
    have "state ?job1 = state job" by simp
    with dispatch_stage[OF j1, of env "d - (dispatchAt env - stepStart env)"] st assms(2)
    obtain b where b: "jobStage (dbOf ?out) jid = Some b" and le: "stageLe a b"
      by auto
    show ?thesis
    proof (cases ?out)
      case (Returned db2)
      with b le \<open>j = jid\<close> show ?thesis by (simp add: step_unfold[OF job False])
    next
      case (Threw db2)
      with b obtain job2 where j2: "findJob db2 jid = Some job2" by (auto simp: jobStage_def)
      from onStepError_stage[OF j2, of env "fromJson (state job)" "attempt job + 1"] b Threw
      have "jobStage (onStepError env db2 jid (fromJson (state job)) (attempt job + 1)) jid
              \<in> {Some b, Some PUBLISH}" by simp
      with le stageLe_PUBLISH[OF assms(2)] Threw \<open>j = jid\<close> show ?thesis
        by (auto simp: step_unfold[OF job False])
    qed
  qed
qed

section \<open>Sequences of invocations\<close>

lemma find_append_Some: "find P xs \<noteq> None \<Longrightarrow> find P (xs @ ys) = find P xs"
  by (induction xs) auto

lemma schedule_findJob:
  assumes "findJob db j \<noteq> None"
  shows "findJob (fst (scheduleDeepDives env db)) j = findJob db j"
proof -
  from schedule_effect[of env db] obtain new where
    "deepDiveJobs (fst (scheduleDeepDives env db)) = deepDiveJobs db @ new" by blast
  with assms show ?thesis by (simp add: findJob_def find_append_Some)
qed

lemma invoke_reports:
  assumes "countReports db j \<le> 1"
  shows "countReports (invoke db c) j \<le> 1"
proof (cases c)
  case (Step env jid d)
  with step_reports[OF assms] show ?thesis by simp
next
  case (Publish env jid)
  with publish_countReports[OF assms] show ?thesis by simp
next
  case (Schedule env)
  with schedule_effect[of env db] assms show ?thesis by (simp add: countReports_def)
qed

lemma invoke_stage:
  assumes "jobStage db j = Some a" and "a \<noteq> UnknownStage"
  shows "\<exists>b. jobStage (invoke db c) j = Some b \<and> stageLe a b"
proof (cases c)
  case (Step env jid d)
  with step_stage[OF assms] show ?thesis by simp
next
  case (Publish env jid)
  with assms show ?thesis by (simp add: publish_stage stageLe_refl)
next
  case (Schedule env)
  from assms(1) have "findJob db j \<noteq> None" by (auto simp: jobStage_def)
  from schedule_findJob[OF this, of env] Schedule
  have "jobStage (invoke db c) j = jobStage db j" by (simp add: jobStage_def)
  with assms show ?thesis by (simp add: stageLe_refl)
qed

lemma invoke_countJobs:
  assumes "countJobs db u w \<le> 1"
  shows "countJobs (invoke db c) u w \<le> 1"
proof (cases c)
  case (Step env jid d)
  with jobsUpdated_countJobs[OF step_jobsUpdated] assms show ?thesis by simp
next
  case (Publish env jid)
  with jobsUpdated_countJobs[OF publish_jobsUpdated] assms show ?thesis by simp
next
  case (Schedule env)
  with schedule_effect[of env db u w] assms show ?thesis by simp
qed

lemma invokeAll_reports:
  "countReports db j \<le> 1 \<Longrightarrow> countReports (invokeAll db calls) j \<le> 1"
  unfolding invokeAll_def
proof (induction calls arbitrary: db)
  case Nil
  then show ?case by simp
next
  case (Cons c calls)
  from Cons.IH[OF invoke_reports[OF Cons.prems]] show ?case by simp
qed

lemma invokeAll_countJobs:
  "countJobs db u w \<le> 1 \<Longrightarrow> countJobs (invokeAll db calls) u w \<le> 1"
  unfolding invokeAll_def
proof (induction calls arbitrary: db)
  case Nil
  then show ?case by simp
next
  case (Cons c calls)
  from Cons.IH[OF invoke_countJobs[OF Cons.prems]] show ?case by simp
qed

lemma invokeAll_stage:
  "jobStage db j = Some a \<Longrightarrow> a \<noteq> UnknownStage \<Longrightarrow>
     \<exists>b. jobStage (invokeAll db calls) j = Some b \<and> stageLe a b"
  unfolding invokeAll_def
proof (induction calls arbitrary: db a)
  case Nil
  then show ?case by (simp add: stageLe_refl)
next
  case (Cons c calls)
  from invoke_stage[OF Cons.prems, of c] obtain b where
    b: "jobStage (invoke db c) j = Some b" and le: "stageLe a b" by blast
  from stageLe_known[OF le] have "b \<noteq> UnknownStage" by simp
  from Cons.IH[OF b this] obtain b' where
    "jobStage (foldl invoke (invoke db c) calls) j = Some b'" and "stageLe b b'" by blast
  with le stageLe_trans show ?case by (auto simp: )
qed

section \<open>Synthesis without sources\<close>

lemma str_includes_startsWith: "startsWith s p \<Longrightarrow> str_includes s p"
  by (cases s) (auto simp: startsWith_def)

lemma str_includes_append: "str_includes (xs @ p @ ys) p"
proof (induction xs)
  case Nil
  have "startsWith (p @ ys) p" by (simp add: startsWith_def)
  then show ?case by (simp add: str_includes_startsWith)
next
  case (Cons x xs)
  then show ?case by simp
qed

lemma minimalMarkdown_includes: "str_includes (minimalMarkdown lbl) ''No Coverage Available''"
proof -
  have "\<exists>ys. minimalMarkdown lbl
              = (''# '' @ lbl @ '' '' @ [em_dash] @ '' No Coverage Available'') @ ys"
    unfolding minimalMarkdown_def join.simps by (rule exI) (rule refl)
  then obtain ys where
    "minimalMarkdown lbl = (''# '' @ lbl @ '' '' @ [em_dash] @ '' No Coverage Available'') @ ys"
    by blast
  then have "minimalMarkdown lbl
               = (''# '' @ lbl @ '' '' @ [em_dash] @ '' '') @ ''No Coverage Available'' @ ys"
    by simp
  then show ?thesis using str_includes_append by metis
qed

lemma createMinimalReport_result:
  assumes "findJob db jid = Some job"
  shows "\<exists>db'. createMinimalReport db jid = Returned db' \<and>
           jobStage db' jid = Some PUBLISH \<and> jobStatus db' jid = Some Partial \<and>
           (\<exists>md. map_option partialMarkdown (jobSynthesis db' jid) = Some (Some md) \<and>
                 str_includes md ''No Coverage Available'') \<and>
           deepDiveReports db' = deepDiveReports db"
  using assms minimalMarkdown_includes
  by (simp add: createMinimalReport_def Let_def findJob_updateJob jobStage_def jobStatus_def
      jobSynthesis_def fromJson_def toJson_def)

lemma okSources_empty:
  assumes "\<forall>s \<in> set (deepDiveSources db). jobId s = jid \<longrightarrow> accessStatus s \<noteq> AsOk"
  shows "okSources env db jid = []"
proof -
  have "filter (\<lambda>s. jobId s = jid \<and> accessStatus s = AsOk \<and> extractedText s \<noteq> None)
          (deepDiveSources db) = []"
    using assms by (auto simp: filter_empty_conv)
  then show ?thesis by (simp add: okSources_def)
qed

lemma discover_to_synthesize:
  assumes "discoverCandidates env db jid = Returned db1" and "jobStage db1 jid = Some SYNTHESIZE"
  shows "jobStatus db1 jid = Some Partial \<and> deepDiveSources db1 = deepDiveSources db \<and>
         jobSynthesis db1 jid = None"
proof -
  from discoverCandidates_cases[OF assms(1)] obtain job where j: "findJob db jid = Some job"
    and c: "db1 = updateJob jid
               (\<lambda>j. j\<lparr>status := Failed,
                       state := Some (initialState\<lparr>error := Some ''Interest not found''\<rparr>)\<rparr>) db
       \<or> db1 = updateJob jid
               (\<lambda>j. j\<lparr>status := Partial,
                       state := toJson
                         \<lparr>stage = SYNTHESIZE,
                          discovery = Some \<lparr>candidateUrls = [], selectedCount = 0\<rparr>,
                          fetch = None, synthesis = None, publish = None, error = None\<rparr>\<rparr>) db
       \<or> (\<exists>selected. selected \<noteq> [] \<and>
             db1 = updateJob jid
               (\<lambda>j. j\<lparr>state := toJson
                         \<lparr>stage = FETCH,
                          discovery = Some \<lparr>candidateUrls = selected,
                                            selectedCount = length selected\<rparr>,
                          fetch = Some \<lparr>totalSources = length selected, fetchedCount = 0,
                                        okCount = 0, nextIndex = 0\<rparr>,
                          synthesis = None, publish = None, error = None\<rparr>\<rparr>)
               (db\<lparr>deepDiveSources := createSources env jid selected (deepDiveSources db)\<rparr>))"
    by blast
  have f: "findJob (db\<lparr>deepDiveSources := X\<rparr>) jid = Some job" for X
    using j by (simp add: findJob_def)
  from c show ?thesis
  proof (elim disjE exE conjE)
    assume "db1 = updateJob jid
               (\<lambda>j. j\<lparr>status := Failed,
                       state := Some (initialState\<lparr>error := Some ''Interest not found''\<rparr>)\<rparr>) db"
    with assms(2) j show ?thesis
      by (simp add: jobStage_def findJob_updateJob_keys fromJson_def initialState_def)
  next
    assume "db1 = updateJob jid
               (\<lambda>j. j\<lparr>status := Partial,
                       state := toJson
                         \<lparr>stage = SYNTHESIZE,
                          discovery = Some \<lparr>candidateUrls = [], selectedCount = 0\<rparr>,
                          fetch = None, synthesis = None, publish = None, error = None\<rparr>\<rparr>) db"
    with j show ?thesis
      by (simp add: jobStatus_def jobSynthesis_def findJob_updateJob_keys fromJson_def toJson_def)
  next
    fix selected
    assume "db1 = updateJob jid
               (\<lambda>j. j\<lparr>state := toJson
                         \<lparr>stage = FETCH,
                          discovery = Some \<lparr>candidateUrls = selected,
                                            selectedCount = length selected\<rparr>,
                          fetch = Some \<lparr>totalSources = length selected, fetchedCount = 0,
                                        okCount = 0, nextIndex = 0\<rparr>,
                          synthesis = None, publish = None, error = None\<rparr>\<rparr>)
               (db\<lparr>deepDiveSources := createSources env jid selected (deepDiveSources db)\<rparr>)"
    with assms(2) f show ?thesis
      by (simp add: jobStage_def findJob_updateJob_keys fromJson_def toJson_def)
  qed
qed

section \<open>Lemmas on the validation of reports\<close>

lemma sectionChecks_empty:
  "(sectionChecks r = []) =
     (5 \<le> length (trim (headline r)) \<and>
      3 \<le> length (whatHappened r) \<and> length (whatHappened r) \<le> 6 \<and>
      whatChanged r \<noteq> [] \<and>
      length (whyItMatters r) = 3 \<and>
      risks r \<noteq> [] \<and>
      length (actionPrompts r) = 3 \<and>
      sources r \<noteq> [])"
  by (auto simp: sectionChecks_def)

lemma valid_sectionChecks: "valid (validateReport r srcs) \<Longrightarrow> sectionChecks r = []"
  by (simp add: validateReport_def Let_def)

section \<open>Lemmas on the attempt ceiling\<close>

text \<open>
  A step whose stage throws with the ceiling reached: outside \<open>PUBLISH\<close> the status
  ends partial, complete or failed.
\<close>

lemma deepDiveStep_ceiling_settles:
  assumes "findJob db jid = Some job" and "status job \<notin> {Complete, Aborted, Failed}"
    and "dispatch env (updateJob jid (\<lambda>j. j\<lparr>attempt := attempt job + 1, status := Running\<rparr>) db)
           jid (d - (dispatchAt env - stepStart env)) (fromJson (state job)) = Threw db2"
    and "attempt job + 1 \<ge> MAX_ATTEMPTS"
    and "findJob db2 jid = Some job2" and "stage (fromJson (state job2)) \<noteq> PUBLISH"
  shows "jobStatus (deepDiveStep env db jid d) jid \<in> {Some Partial, Some Complete, Some Failed}"
  using onStepError_forced_status[OF assms(5) assms(4) assms(6), of env "fromJson (state job)"]
    assms(3)
  by (simp add: step_unfold[OF assms(1) assms(2)])

text \<open>
  In \<open>PUBLISH\<close> it does not: when \<open>publishReport\<close> throws with the ceiling reached, the
  step leaves the job running, whatever the job and the environment.
\<close>

lemma deepDiveStep_ceiling_in_publish:
  assumes "findJob db jid = Some job" and "status job \<notin> {Complete, Aborted, Failed}"
    and "stage (fromJson (state job)) = PUBLISH"
    and "publishReport env
           (updateJob jid (\<lambda>j. j\<lparr>attempt := attempt job + 1, status := Running\<rparr>) db) jid
         = Threw db2"
    and "attempt job + 1 \<ge> MAX_ATTEMPTS"
  shows "deepDiveStep env db jid d = db2 \<and> jobStatus db2 jid = Some Running"
proof -
  let ?db1 = "updateJob jid (\<lambda>j. j\<lparr>attempt := attempt job + 1, status := Running\<rparr>) db"
  have j1: "findJob ?db1 jid = Some (job\<lparr>attempt := attempt job + 1, status := Running\<rparr>)"
    using assms(1) by (simp add: findJob_updateJob_keys)
  from publish_threw_jobs[OF assms(4)] j1
  have j2: "findJob db2 jid = Some (job\<lparr>attempt := attempt job + 1, status := Running\<rparr>)"
    by (simp add: findJob_def)
  have "stage (fromJson (state (job\<lparr>attempt := attempt job + 1, status := Running\<rparr>))) = PUBLISH"
    using assms(3) by simp
  from onStepError_publish_noop[OF j2 assms(5) this, of env "fromJson (state job)"] assms(3,4)
  have "deepDiveStep env db jid d = db2"
    by (simp add: step_unfold[OF assms(1) assms(2)] dispatch_def)
  with j2 show ?thesis by (simp add: jobStatus_def)
qed

text \<open>A stage value outside the four is reset to \<open>DISCOVER\<close> by the next step.\<close>

lemma deepDiveStep_unknown_stage:
  assumes "findJob db jid = Some job" and "status job \<notin> {Complete, Aborted, Failed}"
    and "stage (fromJson (state job)) = UnknownStage"
  shows "jobStage (deepDiveStep env db jid d) jid = Some DISCOVER"
  using assms
  by (simp add: step_unfold[OF assms(1) assms(2)] dispatch_def jobStage_def
      findJob_updateJob_keys fromJson_def toJson_def initialState_def)

section \<open>Lemmas on the stored state document\<close>





text \<open>
  The properties of a written document are those of the state, so that the document
  determines the state.
\<close>

lemma map_of_property:
  "map_of (property k x @ rest) k' =
     (if k = k' then (case x of None \<Rightarrow> map_of rest k' | Some y \<Rightarrow> Some y) else map_of rest k')"
  by (cases x) simp_all

lemma map_of_property_last: "map_of (property k x) k' = (if k = k' then x else None)"
  by (cases x) simp_all

lemma toJsonValue_properties:
  "\<exists>ps. toJsonValue s = JObject ps \<and>
     map_of ps ''stage'' = stageJson (stage s) \<and>
     map_of ps ''discovery'' = map_option discoveryJson (discovery s) \<and>
     map_of ps ''fetch'' = map_option fetchJson (fetch s) \<and>
     map_of ps ''synthesis'' = map_option synthesisJson (synthesis s) \<and>
     map_of ps ''publish'' = map_option publishJson (publish s) \<and>
     map_of ps ''error'' = map_option JString (error s)"
  by (simp add: toJsonValue_def map_of_property map_of_property_last del: map_of_append
      split: option.splits)

lemma map_option_inj:
  assumes "\<And>a b. f a = f b \<Longrightarrow> a = b" and "map_option f x = map_option f y"
  shows "x = y"
  using assms by (cases x; cases y) auto

lemma property_inj: "property k x = property k y \<Longrightarrow> x = y"
  by (cases x; cases y) simp_all

lemma stageJson_inj: "stageJson a = stageJson b \<Longrightarrow> a = b"
  by (cases a; cases b) (simp_all add: stageJson_def)

lemma discoveryJson_inj: "discoveryJson a = discoveryJson b \<Longrightarrow> a = b"
  by (cases a; cases b) (simp add: discoveryJson_def inj_on_def)

lemma fetchJson_inj: "fetchJson a = fetchJson b \<Longrightarrow> a = b"
  by (cases a; cases b) (simp add: fetchJson_def)

lemma synthesisJson_inj: "synthesisJson a = synthesisJson b \<Longrightarrow> a = b"
  by (cases a; cases b)
     (auto simp: synthesisJson_def split: Strategy.splits
        dest!: property_inj dest: map_option_inj[of JString, rotated])

lemma publishJson_inj: "publishJson a = publishJson b \<Longrightarrow> a = b"
  by (cases a; cases b) (auto simp: publishJson_def split: option.splits)

lemma toJsonValue_inj:
  assumes "toJsonValue s = toJsonValue t"
  shows "s = t"
proof -
  obtain ps where s: "toJsonValue s = JObject ps"
    and s1: "map_of ps ''stage'' = stageJson (stage s)"
    and s2: "map_of ps ''discovery'' = map_option discoveryJson (discovery s)"
    and s3: "map_of ps ''fetch'' = map_option fetchJson (fetch s)"
    and s4: "map_of ps ''synthesis'' = map_option synthesisJson (synthesis s)"
    and s5: "map_of ps ''publish'' = map_option publishJson (publish s)"
    and s6: "map_of ps ''error'' = map_option JString (error s)"
    using toJsonValue_properties[of s] by blast
  obtain qs where t: "toJsonValue t = JObject qs"
    and t1: "map_of qs ''stage'' = stageJson (stage t)"
    and t2: "map_of qs ''discovery'' = map_option discoveryJson (discovery t)"
    and t3: "map_of qs ''fetch'' = map_option fetchJson (fetch t)"
    and t4: "map_of qs ''synthesis'' = map_option synthesisJson (synthesis t)"
    and t5: "map_of qs ''publish'' = map_option publishJson (publish t)"
    and t6: "map_of qs ''error'' = map_option JString (error t)"
    using toJsonValue_properties[of t] by blast
  from assms s t have eq: "ps = qs" by simp
  have "stage s = stage t"
    using s1 t1 eq by (simp add: stageJson_inj)
  moreover have "discovery s = discovery t"
    using s2 t2 eq map_option_inj[of discoveryJson] discoveryJson_inj by auto
  moreover have "fetch s = fetch t"
    using s3 t3 eq map_option_inj[of fetchJson] fetchJson_inj by auto
  moreover have "synthesis s = synthesis t"
    using s4 t4 eq map_option_inj[of synthesisJson] synthesisJson_inj by auto
  moreover have "publish s = publish t"
    using s5 t5 eq map_option_inj[of publishJson] publishJson_inj by auto
  moreover have "error s = error t"
    using s6 t6 eq map_option_inj[of JString] by auto
  ultimately show ?thesis by simp
qed



section \<open>The attempt ceiling (C1)\<close>

text \<open>
  C1 holds for a stage that throws in \<open>DISCOVER\<close>, \<open>FETCH\<close> or \<open>SYNTHESIZE\<close> with the
  ceiling reached: the forced publish leaves the status partial, complete or failed
  (\<open>deepDiveStep_ceiling_settles\<close>). It fails in \<open>PUBLISH\<close>
  (\<open>deepDiveStep_ceiling_in_publish\<close>). The job below is in \<open>PUBLISH\<close> with two attempts
  behind it; the third step dispatches to \<open>publishReport\<close>, which creates the report and
  throws when the link tokens are issued; the handler finds the stage \<open>PUBLISH\<close>, does
  nothing, and the status stays running.
\<close>

theorem deepDiveStep_publish_throw_stays_running:
  "jobStage publishDb ''j1'' = Some PUBLISH \<and>
   map_option attempt (findJob publishDb ''j1'') = Some 2 \<and>
   (\<exists>db'. publishReport tokenFailEnv
             (updateJob ''j1'' (\<lambda>j. j\<lparr>attempt := 3, status := Running\<rparr>) publishDb) ''j1''
           = Threw db') \<and>
   map_option attempt (findJob (deepDiveStep tokenFailEnv publishDb ''j1'' 60000) ''j1'') = Some 3 \<and>
   jobStatus (deepDiveStep tokenFailEnv publishDb ''j1'' 60000) ''j1'' = Some Running"
proof -
  have a: "jobStage publishDb ''j1'' = Some PUBLISH"
    by code_simp
  have b: "map_option attempt (findJob publishDb ''j1'') = Some 2"
    by code_simp
  have c: "publishReport tokenFailEnv
             (updateJob ''j1'' (\<lambda>j. j\<lparr>attempt := 3, status := Running\<rparr>) publishDb) ''j1''
           = Threw ((updateJob ''j1'' (\<lambda>j. j\<lparr>attempt := 3, status := Running\<rparr>) publishDb)
               \<lparr>deepDiveReports :=
                  [\<lparr>report_id = ''id0'', report_jobId = ''j1'',
                    subject = ''Deep Dive '' @ [em_dash] @ '' AI '' @ [em_dash] @ '' March 3'',
                    markdown = ''# Weekly report'', html = ''# Weekly report''\<rparr>]\<rparr>)"
    by code_simp
  have d: "map_option attempt (findJob (deepDiveStep tokenFailEnv publishDb ''j1'' 60000) ''j1'')
             = Some 3"
    by code_simp
  have e: "jobStatus (deepDiveStep tokenFailEnv publishDb ''j1'' 60000) ''j1'' = Some Running"
    by code_simp
  from a b c d e show ?thesis by simp
qed

section \<open>One report per job (C2)\<close>

text \<open>
  C2. Over any sequence of steps, direct publishes and scheduler runs, a job that has
  at most one report keeps at most one. A step on a missing job, or on a job that is
  complete, aborted or failed, changes nothing. \<open>publishReport\<close> on a job that has a
  report returns with the reports as they were and the status complete.
\<close>

theorem at_most_one_report:
  "(countReports db j \<le> 1 \<longrightarrow> countReports (invokeAll db calls) j \<le> 1) \<and>
   (findJob db jid = None \<longrightarrow> deepDiveStep env db jid maxDuration = db) \<and>
   (\<forall>job. findJob db jid = Some job \<and> status job \<in> {Complete, Aborted, Failed} \<longrightarrow>
      deepDiveStep env db jid maxDuration = db) \<and>
   (\<forall>job. findJob db jid = Some job \<and> findReport db jid \<noteq> None \<longrightarrow>
      publishReport env db jid = Returned (updateJob jid (\<lambda>j. j\<lparr>status := Complete\<rparr>) db) \<and>
      deepDiveReports (dbOf (publishReport env db jid)) = deepDiveReports db \<and>
      jobStatus (dbOf (publishReport env db jid)) jid = Some Complete)"
proof -
  have p: "publishReport env db jid = Returned (updateJob jid (\<lambda>j. j\<lparr>status := Complete\<rparr>) db)"
    if "findJob db jid = Some job" and "findReport db jid \<noteq> None" for job
    using that by (auto simp: publishReport_def)
  have q: "jobStatus (updateJob jid (\<lambda>j. j\<lparr>status := Complete\<rparr>) db) jid = Some Complete"
    if "findJob db jid = Some job" for job
    using that by (simp add: jobStatus_def findJob_updateJob_keys)
  show ?thesis
    using invokeAll_reports[of db j calls] step_noop(1)[of db jid env maxDuration]
      step_noop(2)[of db jid _ env maxDuration] p q
    by (auto simp: )
qed

text \<open>
  C2 at the sample data: four steps of the sample job end with one report; a step on an
  unknown job and a step on a failed job change nothing; publishing the job that has
  its report keeps the one report and sets the status complete.
\<close>

theorem at_most_one_report_witness:
  "countReports exampleDb ''j1'' = 0 \<and>
   countReports (invokeAll exampleDb
      [Step exampleEnv ''j1'' 60000, Step exampleEnv ''j1'' 60000,
       Step exampleEnv ''j1'' 60000, Step exampleEnv ''j1'' 60000]) ''j1'' \<le> 1 \<and>
   findJob exampleDb ''j2'' = None \<and>
   deepDiveStep exampleEnv exampleDb ''j2'' 60000 = exampleDb \<and>
   map_option status (findJob (updateJob ''j1'' (\<lambda>j. j\<lparr>status := Failed\<rparr>) exampleDb) ''j1'')
     = Some Failed \<and>
   deepDiveStep exampleEnv (updateJob ''j1'' (\<lambda>j. j\<lparr>status := Failed\<rparr>) exampleDb) ''j1'' 60000
     = updateJob ''j1'' (\<lambda>j. j\<lparr>status := Failed\<rparr>) exampleDb \<and>
   countReports publishedDb ''j1'' = 1 \<and>
   deepDiveReports (dbOf (publishReport exampleEnv publishedDb ''j1'')) = deepDiveReports publishedDb \<and>
   jobStatus (dbOf (publishReport exampleEnv publishedDb ''j1'')) ''j1'' = Some Complete"
proof -
  let ?calls = "[Step exampleEnv ''j1'' 60000, Step exampleEnv ''j1'' 60000,
                 Step exampleEnv ''j1'' 60000, Step exampleEnv ''j1'' 60000]"
  let ?failed = "updateJob ''j1'' (\<lambda>j. j\<lparr>status := Failed\<rparr>) exampleDb"
  have c0: "countReports exampleDb ''j1'' = 0"
    by (simp add: countReports_def exampleDb_def)
  have n: "findJob exampleDb ''j2'' = None"
    by (simp add: findJob_def exampleDb_def exampleJob_def)
  have fj: "findJob ?failed ''j1'' = Some (exampleJob\<lparr>status := Failed\<rparr>)"
    by (simp add: findJob_def updateJob_def exampleDb_def exampleJob_def)
  have pj: "findJob publishedDb ''j1''
              = Some (exampleJob\<lparr>status := Partial, attempt := 3, state := Some publishState\<rparr>)"
    by (simp add: findJob_def publishedDb_def exampleDb_def exampleJob_def)
  have pr: "findReport publishedDb ''j1'' \<noteq> None"
    by (simp add: findReport_def publishedDb_def exampleDb_def)
  have c1: "countReports publishedDb ''j1'' = 1"
    by (simp add: countReports_def publishedDb_def exampleDb_def)
  from at_most_one_report[of exampleDb "''j1''" ?calls "''j2''" exampleEnv 60000] c0 n
  have a: "countReports (invokeAll exampleDb ?calls) ''j1'' \<le> 1"
    and b: "deepDiveStep exampleEnv exampleDb ''j2'' 60000 = exampleDb"
    by simp_all
  from at_most_one_report[of ?failed "''j1''" "[]" "''j1''" exampleEnv 60000] fj
  have c: "deepDiveStep exampleEnv ?failed ''j1'' 60000 = ?failed"
    by simp
  from at_most_one_report[of publishedDb "''j1''" "[]" "''j1''" exampleEnv 60000] pj pr
  have d: "deepDiveReports (dbOf (publishReport exampleEnv publishedDb ''j1''))
             = deepDiveReports publishedDb"
    and e: "jobStatus (dbOf (publishReport exampleEnv publishedDb ''j1'')) ''j1'' = Some Complete"
    by blast+
  from c0 a n b fj c c1 d e show ?thesis by simp
qed

section \<open>Stages never go back (C3)\<close>

text \<open>
  C3. Along any sequence of invocations the stage recorded for a job never goes back
  in the order \<open>DISCOVER < FETCH < SYNTHESIZE < PUBLISH\<close>: from a job at one of the four
  stages, the stage after any prefix of the sequence is at or beyond the first one, and
  the stage after any extension of that prefix is at or beyond the prefix's.
\<close>

theorem stage_never_regresses:
  assumes "jobStage db j = Some a" and "a \<noteq> UnknownStage"
  shows "\<exists>b c. jobStage (invokeAll db xs) j = Some b \<and>
               jobStage (invokeAll db (xs @ ys)) j = Some c \<and>
               stageLe a b \<and> stageLe b c"
proof -
  from invokeAll_stage[OF assms, of xs] obtain b where
    b: "jobStage (invokeAll db xs) j = Some b" and le: "stageLe a b" by blast
  from stageLe_known[OF le] have "b \<noteq> UnknownStage" by simp
  from invokeAll_stage[OF b this, of ys] obtain c where
    "jobStage (invokeAll (invokeAll db xs) ys) j = Some c" and "stageLe b c" by blast
  with b le show ?thesis by (auto simp: invokeAll_def)
qed

text \<open>C3 at the sample job, known to start in \<open>DISCOVER\<close>, over one step and then two more.\<close>

theorem stage_never_regresses_witness:
  "jobStage exampleDb ''j1'' = Some DISCOVER \<and>
   (\<exists>b c. jobStage (invokeAll exampleDb [Step exampleEnv ''j1'' 60000]) ''j1'' = Some b \<and>
          jobStage (invokeAll exampleDb
             ([Step exampleEnv ''j1'' 60000] @
              [Step exampleEnv ''j1'' 60000, Step exampleEnv ''j1'' 60000])) ''j1'' = Some c \<and>
          stageLe DISCOVER b \<and> stageLe b c)"
proof -
  have s: "jobStage exampleDb ''j1'' = Some DISCOVER"
    by (simp add: jobStage_def findJob_def exampleDb_def exampleJob_def fromJson_def
        initialState_def)
  have k: "DISCOVER \<noteq> UnknownStage" by simp
  from stage_never_regresses[OF s k, of "[Step exampleEnv ''j1'' 60000]"
      "[Step exampleEnv ''j1'' 60000, Step exampleEnv ''j1'' 60000]"] s
  show ?thesis by blast
qed

section \<open>The decision after a fetch batch (C4)\<close>

text \<open>
  C4. After the batch, with \<open>oks\<close> the running count of ok sources and \<open>db1\<close> the
  tables the batch left, \<open>fetchAndExtractBatch\<close> returns and has decided: four or more
  ok sources, \<open>SYNTHESIZE\<close> with the strategy deep-research and the status as it was;
  otherwise, sources still unfetched, \<open>FETCH\<close> with the updated counters and the status
  as it was; otherwise, two or more ok sources, \<open>SYNTHESIZE\<close> with deep-research and the
  status partial; otherwise \<open>SYNTHESIZE\<close> with map-reduce and the status partial.
\<close>

theorem fetchAndExtractBatch_decision:
  assumes "findJob db jid = Some job"
    and "fetchBatch env db jid maxDuration (fromJson (state job)) = (db1, fetched, oks)"
  shows "\<exists>db'. fetchAndExtractBatch env db jid maxDuration = Returned db' \<and>
           deepDiveSources db' = deepDiveSources db1 \<and>
           (if oks \<ge> 4 then
              jobStage db' jid = Some SYNTHESIZE \<and>
              map_option strategy (jobSynthesis db' jid) = Some DeepResearch \<and>
              jobStatus db' jid = Some (status job)
            else if length (unfetchedSources db1 jid) > 0 then
              jobStage db' jid = Some FETCH \<and>
              map_option fetchedCount (jobFetch db' jid) = Some fetched \<and>
              map_option okCount (jobFetch db' jid) = Some oks \<and>
              map_option nextIndex (jobFetch db' jid) = Some fetched \<and>
              jobStatus db' jid = Some (status job)
            else if oks \<ge> 2 then
              jobStage db' jid = Some SYNTHESIZE \<and>
              map_option strategy (jobSynthesis db' jid) = Some DeepResearch \<and>
              jobStatus db' jid = Some Partial
            else
              jobStage db' jid = Some SYNTHESIZE \<and>
              map_option strategy (jobSynthesis db' jid) = Some MapReduce \<and>
              jobStatus db' jid = Some Partial)"
  using assms by (rule fetchAndExtractBatch_next)

text \<open>
  The theorem at a job with four unfetched sources that all read: the batch counts
  four ok sources and the job moves to \<open>SYNTHESIZE\<close> with deep-research.
\<close>

theorem fetchAndExtractBatch_decision_witness:
  "findJob fetchDb ''j1'' = Some (exampleJob\<lparr>status := Running, state := Some fetchState\<rparr>) \<and>
   snd (fetchBatch readableEnv fetchDb ''j1'' 60000 fetchState) = (4, 4) \<and>
   jobStage (dbOf (fetchAndExtractBatch readableEnv fetchDb ''j1'' 60000)) ''j1''
     = Some SYNTHESIZE \<and>
   map_option strategy
     (jobSynthesis (dbOf (fetchAndExtractBatch readableEnv fetchDb ''j1'' 60000)) ''j1'')
     = Some DeepResearch \<and>
   jobStatus (dbOf (fetchAndExtractBatch readableEnv fetchDb ''j1'' 60000)) ''j1'' = Some Running"
proof -
  let ?job = "exampleJob\<lparr>status := Running, state := Some fetchState\<rparr>"
  have f: "findJob fetchDb ''j1'' = Some ?job"
    by (simp add: findJob_def fetchDb_def exampleDb_def exampleJob_def)
  have q: "\<not> hasPaywallSignal (exampleResponse ''hello'' (replicate 1300 (CHR ''a'')))"
    by (simp add: hasPaywallSignal_def exampleResponse_def PAYWALL_MARKERS_def
        PAYWALL_URL_PATTERNS_def toLowerCase_def toLowerChar_def startsWith_def)
  have r: "readableText (page (exampleResponse ''hello'' (replicate 1300 (CHR ''a''))))
             = replicate 1300 (CHR ''a'')"
    by (simp add: readableText_def exampleResponse_def examplePage_def MIN_READABLE_CHARS_def)
  have ok: "fr_status (fetchSingleSource
              (\<lambda>u. Reply (exampleResponse ''hello'' (replicate 1300 (CHR ''a'')))) u) = AsOk" for u
    using q r by (simp add: fetchSingleSource_status responseOk_def MIN_READABLE_CHARS_def)
       (simp add: exampleResponse_def)
  have c: "snd (fetchBatch readableEnv fetchDb ''j1'' 60000 fetchState) = (4, 4)"
    by (simp add: fetchBatch_def fetchDb_def exampleDb_def unfetchedSources_def exampleSource_def
        readableEnv_def exampleEnv_def fetchState_def initialState_def hasTimeRemaining_def ok
        Let_def)
  obtain db1 where
    b: "fetchBatch readableEnv fetchDb ''j1'' 60000 (fromJson (state ?job)) = (db1, 4, 4)"
    using c by (cases "fetchBatch readableEnv fetchDb ''j1'' 60000 fetchState")
      (simp add: fromJson_def)
  from fetchAndExtractBatch_decision[OF f b]
  obtain db' where "fetchAndExtractBatch readableEnv fetchDb ''j1'' 60000 = Returned db'"
    and "jobStage db' ''j1'' = Some SYNTHESIZE"
    and "map_option strategy (jobSynthesis db' ''j1'') = Some DeepResearch"
    and "jobStatus db' ''j1'' = Some (status ?job)"
    by auto
  with f c show ?thesis by simp
qed

section \<open>The retry of the synthesis (C5)\<close>

text \<open>
  C5 fails on the code. The job below is on its first synthesis attempt with budget
  left; the first answer of the generation service is not a report, so validation
  fails and the retry is made; the retry's answer passes validation and is the
  markdown that is kept. The status written is still partial: it is taken from the
  validation of the first answer.
\<close>

theorem synthesizeReport_accepted_retry_marked_partial:
  "jobStatus synthDb ''j1'' = Some Running \<and>
   \<not> valid (validateReport (parseReportMarkdown ''not a report'') [''some text about banks'']) \<and>
   valid (validateReport (parseReportMarkdown goodMarkdown) [''some text about banks'']) \<and>
   map_option partialMarkdown
     (jobSynthesis (dbOf (synthesizeReport retryEnv synthDb ''j1'' 60000)) ''j1'')
     = Some (Some goodMarkdown) \<and>
   jobStatus (dbOf (synthesizeReport retryEnv synthDb ''j1'' 60000)) ''j1'' = Some Partial"
proof -
  have a: "jobStatus synthDb ''j1'' = Some Running"
    by code_simp
  have b: "\<not> valid (validateReport (parseReportMarkdown ''not a report'')
                     [''some text about banks''])"
    by code_simp
  have c: "valid (validateReport (parseReportMarkdown goodMarkdown) [''some text about banks''])"
    by code_simp
  have d: "map_option partialMarkdown
             (jobSynthesis (dbOf (synthesizeReport retryEnv synthDb ''j1'' 60000)) ''j1'')
           = Some (Some goodMarkdown)"
    by code_simp
  have e: "jobStatus (dbOf (synthesizeReport retryEnv synthDb ''j1'' 60000)) ''j1'' = Some Partial"
    by code_simp
  from a b c d e show ?thesis by simp
qed

section \<open>The section bounds of the validator (C6)\<close>

text \<open>
  C6 (as amended). \<open>validateReport\<close> reports invalid whenever ``What Happened'' has
  fewer than 3 or more than 6 bullets, ``What Changed'' is empty, ``Why It Matters''
  does not have exactly 3 bullets, ``Risks / Watch-outs'' is empty, or ``Action
  Prompts'' does not have exactly 3 bullets. These, a headline of at least 5
  characters and a non-empty source list are all that its section checks ask:
  ``What Changed'' and ``Risks / Watch-outs'' have no other bound.
\<close>

theorem validateReport_section_bounds:
  "(length (whatHappened r) < 3 \<or> length (whatHappened r) > 6 \<or> whatChanged r = [] \<or>
    length (whyItMatters r) \<noteq> 3 \<or> risks r = [] \<or> length (actionPrompts r) \<noteq> 3
      \<longrightarrow> \<not> valid (validateReport r srcs)) \<and>
   ((sectionChecks r = []) =
     (5 \<le> length (trim (headline r)) \<and>
      3 \<le> length (whatHappened r) \<and> length (whatHappened r) \<le> 6 \<and>
      whatChanged r \<noteq> [] \<and>
      length (whyItMatters r) = 3 \<and>
      risks r \<noteq> [] \<and>
      length (actionPrompts r) = 3 \<and>
      sources r \<noteq> []))"
proof -
  have "\<not> valid (validateReport r srcs)"
    if "length (whatHappened r) < 3 \<or> length (whatHappened r) > 6 \<or> whatChanged r = [] \<or>
        length (whyItMatters r) \<noteq> 3 \<or> risks r = [] \<or> length (actionPrompts r) \<noteq> 3"
  proof
    assume "valid (validateReport r srcs)"
    then have "sectionChecks r = []" by (rule valid_sectionChecks)
    with that show False unfolding sectionChecks_empty by auto
  qed
  then show ?thesis using sectionChecks_empty by blast
qed

text \<open>The theorem at the sample report with its ``Why It Matters'' cut to two bullets.\<close>

theorem validateReport_section_bounds_witness:
  "length (whyItMatters (sampleReport\<lparr>whyItMatters := [''i'', ''j'']\<rparr>)) = 2 \<and>
   \<not> valid (validateReport (sampleReport\<lparr>whyItMatters := [''i'', ''j'']\<rparr>) [])"
proof -
  have l: "length (whyItMatters (sampleReport\<lparr>whyItMatters := [''i'', ''j'']\<rparr>)) = 2"
    by simp
  with validateReport_section_bounds[of "sampleReport\<lparr>whyItMatters := [''i'', ''j'']\<rparr>" "[]"]
  have "\<not> valid (validateReport (sampleReport\<lparr>whyItMatters := [''i'', ''j'']\<rparr>) [])"
    by simp
  with l show ?thesis by simp
qed

text \<open>
  C6 as stated fails: the sample report has five bullets under ``What Changed'' and one
  under ``Risks / Watch-outs'', and \<open>validateReport\<close> finds it valid, with a source
  text or without.
\<close>

theorem validateReport_counterexample:
  "length (whatChanged sampleReport) = 5 \<and> length (risks sampleReport) = 1 \<and>
   validateReport sampleReport [''some text about banks''] = \<lparr>valid = True, errors = []\<rparr> \<and>
   validateReport sampleReport [] = \<lparr>valid = True, errors = []\<rparr>"
proof -
  have "validateReport sampleReport [''some text about banks''] = \<lparr>valid = True, errors = []\<rparr>"
    by code_simp
  moreover have "validateReport sampleReport [] = \<lparr>valid = True, errors = []\<rparr>"
    by code_simp
  ultimately show ?thesis by (simp add: sampleReport_def)
qed

section \<open>Classification and truncation of one source (C7)\<close>

text \<open>
  C7 (as amended). \<open>fetchSingleSource\<close> classifies a fetch in this order: a failed
  fetch is blocked; HTTP 401 or 403 is paywalled; any other status outside 200-299 is
  blocked; a paywall pattern in the final URL or a paywall marker in the body is
  paywalled; readable text shorter than 1200 characters is blocked; everything else
  is ok. For an ok source the stored text is \<open>truncateText\<close> of the readable text at
  20,000: a text within the cap is stored whole; a longer one is stored as a prefix of
  at most 20,000 characters, which ends just before the last space among the first
  20,000 characters when that space lies beyond index 16,000, and is otherwise the
  first 20,000 characters as they are (a cut inside a word).
\<close>

theorem fetchSingleSource_classifies:
  "fr_status (fetchSingleSource doFetch u) =
     (case doFetch u of
        FetchFailed \<Rightarrow> AsBlocked
      | Reply r \<Rightarrow>
          if statusCode r = 401 \<or> statusCode r = 403 then AsPaywalled
          else if \<not> responseOk r then AsBlocked
          else if hasPaywallSignal r then AsPaywalled
          else if length (readableText (page r)) < MIN_READABLE_CHARS then AsBlocked
          else AsOk)
   \<and> (fr_status (fetchSingleSource doFetch u) = AsOk \<longrightarrow>
        (\<exists>r. doFetch u = Reply r \<and>
           storedText (fetchSingleSource doFetch u)
             = Some (truncateText (readableText (page r)) MAX_EXTRACTED_TEXT)))
   \<and> (length t \<le> MAX_EXTRACTED_TEXT \<longrightarrow> truncateText t MAX_EXTRACTED_TEXT = t)
   \<and> (length t > MAX_EXTRACTED_TEXT \<longrightarrow>
        length (truncateText t MAX_EXTRACTED_TEXT) \<le> MAX_EXTRACTED_TEXT \<and>
        truncateText t MAX_EXTRACTED_TEXT = take (length (truncateText t MAX_EXTRACTED_TEXT)) t \<and>
        (if 16000 < lastIndexOf (take MAX_EXTRACTED_TEXT t) (CHR '' '')
         then int (length (truncateText t MAX_EXTRACTED_TEXT))
                = lastIndexOf (take MAX_EXTRACTED_TEXT t) (CHR '' '') \<and>
              t ! length (truncateText t MAX_EXTRACTED_TEXT) = CHR '' ''
         else truncateText t MAX_EXTRACTED_TEXT = take MAX_EXTRACTED_TEXT t))"
proof -
  have a: "length t > MAX_EXTRACTED_TEXT \<Longrightarrow>
        (if 16000 < lastIndexOf (take MAX_EXTRACTED_TEXT t) (CHR '' '')
         then int (length (truncateText t MAX_EXTRACTED_TEXT))
                = lastIndexOf (take MAX_EXTRACTED_TEXT t) (CHR '' '') \<and>
              t ! length (truncateText t MAX_EXTRACTED_TEXT) = CHR '' ''
         else truncateText t MAX_EXTRACTED_TEXT = take MAX_EXTRACTED_TEXT t)"
  proof (cases "16000 < lastIndexOf (take MAX_EXTRACTED_TEXT t) (CHR '' '')")
    case True
    assume l: "length t > MAX_EXTRACTED_TEXT"
    from True
    have "5 * lastIndexOf (take MAX_EXTRACTED_TEXT t) (CHR '' '') > 4 * int MAX_EXTRACTED_TEXT"
      by (simp add: MAX_EXTRACTED_TEXT_def)
    from truncateText_cut[OF l this]
    have x: "length (truncateText t MAX_EXTRACTED_TEXT)
               = nat (lastIndexOf (take MAX_EXTRACTED_TEXT t) (CHR '' ''))"
      and y: "t ! length (truncateText t MAX_EXTRACTED_TEXT) = CHR '' ''"
      by blast+
    from x True have "int (length (truncateText t MAX_EXTRACTED_TEXT))
               = lastIndexOf (take MAX_EXTRACTED_TEXT t) (CHR '' '')"
      by linarith
    with y show ?thesis unfolding if_P[OF True] by blast
  next
    case False
    assume l: "length t > MAX_EXTRACTED_TEXT"
    from False
    have "\<not> 5 * lastIndexOf (take MAX_EXTRACTED_TEXT t) (CHR '' '') > 4 * int MAX_EXTRACTED_TEXT"
      by (simp add: MAX_EXTRACTED_TEXT_def)
    from truncateText_hard[OF l this] show ?thesis unfolding if_not_P[OF False] .
  qed
  show ?thesis
    using fetchSingleSource_status[of doFetch u] fetchSingleSource_ok_text[of doFetch u]
      truncateText_short[of t MAX_EXTRACTED_TEXT] truncateText_le[of MAX_EXTRACTED_TEXT t]
      truncateText_prefix[of t MAX_EXTRACTED_TEXT] a
    by blast
qed

text \<open>
  The theorem at a page of 1300 characters behind a plain 200 response (ok, stored
  whole), and at a text of 21,001 characters whose only space is at index 19,000
  (stored up to that space).
\<close>

theorem fetchSingleSource_classifies_witness:
  "fr_status (fetchSingleSource
       (\<lambda>u. Reply (exampleResponse ''hello'' (replicate 1300 (CHR ''a'')))) ''u'') = AsOk
   \<and> storedText (fetchSingleSource
       (\<lambda>u. Reply (exampleResponse ''hello'' (replicate 1300 (CHR ''a'')))) ''u'')
       = Some (replicate 1300 (CHR ''a''))
   \<and> length (truncateText (replicate 19000 (CHR ''a'') @ CHR '' '' # replicate 2000 (CHR ''b''))
               MAX_EXTRACTED_TEXT) = 19000"
proof -
  let ?f = "\<lambda>u::string. Reply (exampleResponse ''hello'' (replicate 1300 (CHR ''a'')))"
  let ?t = "replicate 19000 (CHR ''a'') @ CHR '' '' # replicate 2000 (CHR ''b'')"
  have q: "\<not> hasPaywallSignal (exampleResponse ''hello'' (replicate 1300 (CHR ''a'')))"
    by (simp add: hasPaywallSignal_def exampleResponse_def PAYWALL_MARKERS_def
        PAYWALL_URL_PATTERNS_def toLowerCase_def toLowerChar_def startsWith_def)
  have r: "readableText (page (exampleResponse ''hello'' (replicate 1300 (CHR ''a''))))
             = replicate 1300 (CHR ''a'')"
    by (simp add: readableText_def exampleResponse_def examplePage_def MIN_READABLE_CHARS_def)
  have c: "statusCode (exampleResponse ''hello'' (replicate 1300 (CHR ''a''))) = 200"
    by (simp add: exampleResponse_def)
  note th = fetchSingleSource_classifies[of ?f "''u''" "replicate 1300 (CHR ''a'')"]
  from th q r c have s: "fr_status (fetchSingleSource ?f ''u'') = AsOk"
    by (simp add: responseOk_def MIN_READABLE_CHARS_def)
  from th s r have "storedText (fetchSingleSource ?f ''u'')
                      = Some (truncateText (replicate 1300 (CHR ''a'')) MAX_EXTRACTED_TEXT)"
    by auto
  moreover from th
  have "truncateText (replicate 1300 (CHR ''a'')) MAX_EXTRACTED_TEXT = replicate 1300 (CHR ''a'')"
    by (simp add: MAX_EXTRACTED_TEXT_def)
  moreover have "length (truncateText ?t MAX_EXTRACTED_TEXT) = 19000"
  proof -
    have tk: "take MAX_EXTRACTED_TEXT ?t
                = replicate 19000 (CHR ''a'') @ CHR '' '' # replicate 999 (CHR ''b'')"
      by (simp add: MAX_EXTRACTED_TEXT_def take_Cons')
    have li: "lastIndexOf (take MAX_EXTRACTED_TEXT ?t) (CHR '' '') = 19000"
      unfolding tk by (subst lastIndexOf_append) simp_all
    have len: "length ?t > MAX_EXTRACTED_TEXT" by (simp add: MAX_EXTRACTED_TEXT_def)
    from fetchSingleSource_classifies[of ?f "''u''" ?t] len li
    have "int (length (truncateText ?t MAX_EXTRACTED_TEXT)) = 19000" by simp
    then show ?thesis by simp
  qed
  ultimately show ?thesis using s by simp
qed

text \<open>
  C7 as stated fails twice. A 200 response with 1300 readable characters whose body
  says ``Members only'' is paywalled, not ok. A readable text of 20,001 letters with
  no space is ok and stored as its first 20,000 letters: the cut is inside the word,
  the character after it is a letter.
\<close>

theorem fetchSingleSource_counterexample:
  "fr_status (fetchSingleSource
       (\<lambda>u. Reply (exampleResponse ''Members only'' (replicate 1300 (CHR ''a'')))) ''u'')
     = AsPaywalled
   \<and> fr_status (fetchSingleSource
       (\<lambda>u. Reply (exampleResponse ''hello'' (replicate 20001 (CHR ''a'')))) ''u'') = AsOk
   \<and> storedText (fetchSingleSource
       (\<lambda>u. Reply (exampleResponse ''hello'' (replicate 20001 (CHR ''a'')))) ''u'')
       = Some (replicate 20000 (CHR ''a''))
   \<and> replicate 20001 (CHR ''a'') ! 20000 = CHR ''a''"
proof -
  have p: "hasPaywallSignal (exampleResponse ''Members only'' (replicate 1300 (CHR ''a'')))"
    by (simp add: hasPaywallSignal_def exampleResponse_def PAYWALL_MARKERS_def
        PAYWALL_URL_PATTERNS_def toLowerCase_def toLowerChar_def startsWith_def)
  have q: "\<not> hasPaywallSignal (exampleResponse ''hello'' (replicate 20001 (CHR ''a'')))"
    by (simp add: hasPaywallSignal_def exampleResponse_def PAYWALL_MARKERS_def
        PAYWALL_URL_PATTERNS_def toLowerCase_def toLowerChar_def startsWith_def)
  have r: "readableText (page (exampleResponse ''hello'' (replicate 20001 (CHR ''a''))))
             = replicate 20001 (CHR ''a'')"
    by (simp add: readableText_def exampleResponse_def examplePage_def MIN_READABLE_CHARS_def)
  have s1: "fr_status (fetchSingleSource
       (\<lambda>u. Reply (exampleResponse ''Members only'' (replicate 1300 (CHR ''a'')))) ''u'')
     = AsPaywalled"
    using p by (simp add: fetchSingleSource_status exampleResponse_def responseOk_def)
  have s2: "fr_status (fetchSingleSource
       (\<lambda>u. Reply (exampleResponse ''hello'' (replicate 20001 (CHR ''a'')))) ''u'') = AsOk"
    using q r by (simp add: fetchSingleSource_status responseOk_def MIN_READABLE_CHARS_def)
       (simp add: exampleResponse_def)
  have "lastIndexOf (replicate 20000 (CHR ''a'')) (CHR '' '') = - 1"
    by (rule lastIndexOf_absent) simp
  then have t: "truncateText (replicate 20001 (CHR ''a'')) MAX_EXTRACTED_TEXT
                  = replicate 20000 (CHR ''a'')"
    by (simp add: truncateText_def MAX_EXTRACTED_TEXT_def Let_def)
  from fetchSingleSource_ok_text[OF s2] r t
  have s3: "storedText (fetchSingleSource
       (\<lambda>u. Reply (exampleResponse ''hello'' (replicate 20001 (CHR ''a'')))) ''u'')
       = Some (replicate 20000 (CHR ''a''))" by auto
  from s1 s2 s3 show ?thesis by simp
qed

section \<open>One job per user and week (C8)\<close>

text \<open>
  C8. Over any sequence of scheduler runs (and steps and publishes between them), a
  user who has at most one job for a week keeps at most one for that week; an
  iteration of the scheduler's loop that finds a job for the user and the current
  week goes on to the next user without creating anything.
\<close>

theorem one_job_per_user_week:
  "(countJobs db u w \<le> 1 \<longrightarrow> countJobs (invokeAll db calls) u w \<le> 1) \<and>
   (findJobForWeek db (user_id user)
        (getMondayOfWeek env (schedNow env i) (timezone user)) \<noteq> None \<longrightarrow>
      scheduleLoop env i ((config, user) # rest) (db, created)
        = scheduleLoop env (i + 1) rest (db, created))"
  using invokeAll_countJobs[of db u w calls] by (simp add: Let_def)

text \<open>
  C8 at the sample user, who has a job for week 4: two scheduler runs on a Monday of
  that week leave one job for the week, and the loop passes the user by.
\<close>

theorem one_job_per_user_week_witness:
  "countJobs exampleDb ''u1'' 4 = 1 \<and>
   countJobs (invokeAll exampleDb [Schedule exampleEnv, Schedule exampleEnv]) ''u1'' 4 \<le> 1 \<and>
   getMondayOfWeek exampleEnv (schedNow exampleEnv 0) (timezone exampleUser) = 4 \<and>
   scheduleLoop exampleEnv 0 [(\<lparr>enabled = True, dayOfWeek = ''MO'', maxSources = 6\<rparr>, exampleUser)]
       (exampleDb, 0) = (exampleDb, 0)"
proof -
  have c: "countJobs exampleDb ''u1'' 4 = 1"
    by (simp add: countJobs_def exampleDb_def exampleJob_def)
  have m: "getMondayOfWeek exampleEnv (schedNow exampleEnv 0) (timezone exampleUser) = 4"
    by (simp add: getMondayOfWeek_def exampleEnv_def Let_def)
  have f: "findJobForWeek exampleDb (user_id exampleUser)
             (getMondayOfWeek exampleEnv (schedNow exampleEnv 0) (timezone exampleUser)) \<noteq> None"
    unfolding m by (simp add: findJobForWeek_def exampleDb_def exampleJob_def exampleUser_def)
  note th = one_job_per_user_week[of exampleDb "''u1''" 4
      "[Schedule exampleEnv, Schedule exampleEnv]" exampleUser exampleEnv 0
      "\<lparr>enabled = True, dayOfWeek = ''MO'', maxSources = 6\<rparr>" "[]" 0]
  from th c have a: "countJobs (invokeAll exampleDb [Schedule exampleEnv, Schedule exampleEnv])
                       ''u1'' 4 \<le> 1"
    by simp
  from th f have "scheduleLoop exampleEnv 0
       [(\<lparr>enabled = True, dayOfWeek = ''MO'', maxSources = 6\<rparr>, exampleUser)] (exampleDb, 0)
       = scheduleLoop exampleEnv (0 + 1) [] (exampleDb, 0)"
    by blast
  with c a m show ?thesis by simp
qed

section \<open>Synthesis without sources (C9)\<close>

text \<open>
  C9. When the job has no ok source, \<open>synthesizeReport\<close> is \<open>createMinimalReport\<close>, which
  does not take the environment and so calls no model: it returns with the stage
  \<open>PUBLISH\<close>, the status partial, and a stored markdown that contains
  ``No Coverage Available''. Whenever discovery has moved a job straight to
  \<open>SYNTHESIZE\<close>, it has marked it partial and created no source.
\<close>

theorem synthesizeReport_no_sources:
  assumes "findJob db jid = Some job"
    and "\<forall>s \<in> set (deepDiveSources db). jobId s = jid \<longrightarrow> accessStatus s \<noteq> AsOk"
  shows "synthesizeReport env db jid maxDuration = createMinimalReport db jid \<and>
         (\<exists>db'. synthesizeReport env db jid maxDuration = Returned db' \<and>
            jobStage db' jid = Some PUBLISH \<and> jobStatus db' jid = Some Partial \<and>
            (\<exists>md. map_option partialMarkdown (jobSynthesis db' jid) = Some (Some md) \<and>
                  str_includes md ''No Coverage Available'')) \<and>
         (\<forall>db0 env0. discoverCandidates env0 db0 jid = Returned db \<and>
             jobStage db jid = Some SYNTHESIZE \<longrightarrow>
             jobStatus db jid = Some Partial \<and> deepDiveSources db = deepDiveSources db0)"
proof -
  have e: "synthesizeReport env db jid maxDuration = createMinimalReport db jid"
    using assms(1) okSources_empty[OF assms(2)] by (simp add: synthesizeReport_def Let_def)
  from createMinimalReport_result[OF assms(1)] e discover_to_synthesize
  show ?thesis by metis
qed

text \<open>The theorem at the sample job, whose discovery finds no candidates.\<close>

theorem synthesizeReport_no_sources_witness:
  "discoverCandidates exampleEnv exampleDb ''j1'' = Returned noCandidatesDb \<and>
   deepDiveSources noCandidatesDb = [] \<and>
   jobStage noCandidatesDb ''j1'' = Some SYNTHESIZE \<and>
   jobStatus noCandidatesDb ''j1'' = Some Partial \<and>
   jobStage (dbOf (synthesizeReport exampleEnv noCandidatesDb ''j1'' 60000)) ''j1'' = Some PUBLISH \<and>
   jobStatus (dbOf (synthesizeReport exampleEnv noCandidatesDb ''j1'' 60000)) ''j1'' = Some Partial"
proof -
  have d: "discoverCandidates exampleEnv exampleDb ''j1'' = Returned noCandidatesDb"
    by code_simp
  have s: "deepDiveSources noCandidatesDb = []"
    by (simp add: noCandidatesDb_def exampleDb_def)
  have g: "jobStage noCandidatesDb ''j1'' = Some SYNTHESIZE"
    by code_simp
  obtain job where j: "findJob noCandidatesDb ''j1'' = Some job"
    using g by (auto simp: jobStage_def)
  have z: "\<forall>s \<in> set (deepDiveSources noCandidatesDb). jobId s = ''j1'' \<longrightarrow> accessStatus s \<noteq> AsOk"
    using s by simp
  note th = synthesizeReport_no_sources[OF j z, of exampleEnv 60000]
  from th obtain db' where
    "synthesizeReport exampleEnv noCandidatesDb ''j1'' 60000 = Returned db'"
    "jobStage db' ''j1'' = Some PUBLISH" "jobStatus db' ''j1'' = Some Partial"
    by blast
  moreover from th d g have "jobStatus noCandidatesDb ''j1'' = Some Partial"
    by blast
  ultimately show ?thesis using d s g by simp
qed

section \<open>Decoding the stored state (C10)\<close>



end
